theory Spec2Isabelle
  imports
    Main
    "HOL-Library.Word"
    "HOL-Library.Signed_Division"
    "HOL-Library.List_Lexorder"
    "HOL-Library.Char_ord"
begin

section \<open>Pod choosers of the Kubernetes driver (package podchooser)\<close>

text \<open>
  The development embeds \<^verbatim>\<open>pkg/driver/kubernetes/podchooser/podchooser.go\<close>:
  \<^verbatim>\<open>ListRunningPods\<close>, \<^verbatim>\<open>RandomPodChooser.ChoosePod\<close> and
  \<^verbatim>\<open>StickyPodChooser.ChoosePod\<close>. What the file imports and does not define
  (the pod client, \<^verbatim>\<open>metav1.LabelSelectorAsSelector\<close>, the consistent-hash ring of
  \<^verbatim>\<open>serialx/hashring\<close>, the seeding of \<^verbatim>\<open>math/rand\<close>, the clock) is a
  parameter of the model.
\<close>

subsection \<open>Data\<close>

text \<open>
  Of a \<^verbatim>\<open>corev1.Pod\<close> the code reads \<^verbatim>\<open>pod.Name\<close> and
  \<^verbatim>\<open>pod.Status.Phase\<close>. \<^verbatim>\<open>PodPhase\<close> is a Go string type, and
  \<^verbatim>\<open>corev1.PodRunning\<close> is the string "Running". Go compares strings bytewise, which
  is the lexicographic order on \<open>char list\<close> of the two library theories imported above.
\<close>

record pod =
  Name :: string
  Phase :: string

definition PodRunning :: string where
  "PodRunning = ''Running''"

text \<open>
  \<^verbatim>\<open>pod := &podList.Items[i]\<close> is a pointer into the response of one list call. It is
  modelled by the index \<open>i\<close> (the identity of the pointer within that response) paired with
  the element it points to; no code here writes through a pod pointer. A nil pointer is
  \<open>None\<close> of \<open>pod_ptr option\<close>.
\<close>

type_synonym pod_ptr = "nat \<times> pod"

definition ptr_Name :: "pod_ptr \<Rightarrow> string" where
  "ptr_Name p = Name (snd p)"

definition ptr_Phase :: "pod_ptr \<Rightarrow> string" where
  "ptr_Phase p = Phase (snd p)"

text \<open>
  Failures. An error returned by a collaborator is carried by its identity (a string); the
  error made by \<^verbatim>\<open>fmt.Errorf("no builder pods are running")\<close> is a constructor of its
  own; a run-time panic of Go is a value too, so that its absence can be stated.
\<close>

datatype panic = NilDereference | IndexOutOfRange | MakeSliceLenOutOfRange

datatype error = ApiError string | NoBuilderPodsRunning | Panic panic

text \<open>The three logrus calls of the file, with the arguments they format.\<close>

datatype log_entry =
    DebugPodRunning string
  | DebugRandomChoice nat int
  | ErrorNoPodForKey string

text \<open>
  A \<^verbatim>\<open>rand.Source\<close> is an object with state: \<^verbatim>\<open>Int63()\<close> returns the next
  value and advances it. The state is the sequence of values still to come and the position
  in it.
\<close>

record rand_source =
  draws :: "nat \<Rightarrow> 64 word"
  pos :: nat

definition Int63 :: "rand_source \<Rightarrow> 64 word \<times> rand_source" where
  "Int63 s = (draws s (pos s), s\<lparr>pos := pos s + 1\<rparr>)"

text \<open>
  What a call can change outside the chooser: the number of list calls the orchestrator has
  served, the objects behind \<^verbatim>\<open>rand.Source\<close> references, the log. The clock is read,
  never written.
\<close>

record world =
  list_calls :: nat
  unix_time :: int
  sources :: "nat \<Rightarrow> rand_source"
  trace :: "log_entry list"

text \<open>
  A \<^verbatim>\<open>clientcorev1.PodInterface\<close> is modelled by what its \<^verbatim>\<open>List\<close> answers: the
  \<open>k\<close>-th list call served, asked with a label selector, gives an error or the items of a
  \<^verbatim>\<open>PodList\<close>.
\<close>

type_synonym pod_client = "nat \<Rightarrow> string \<Rightarrow> string + pod list"

record deployment =
  ObjectMeta_Name :: string

text \<open>
  The order in which the operands of one \<^verbatim>\<open>return\<close> statement are evaluated. The Go
  specification (section "Order of evaluation") orders the function calls of a statement
  among themselves, from left to right, and leaves open when a variable is read or indexed
  relative to a call in the same statement; its own example is
  \<^verbatim>\<open>x := []int{a, f()}\<close> with an \<open>f\<close> that increments \<open>a\<close>, of which it says that
  \<open>x\<close> may be \<open>[1, 2]\<close> or \<open>[2, 2]\<close>. Line 46 of the source,
  \<^verbatim>\<open>return pods[n], append(pods[0:n], pods[n+1:]...), nil\<close>, is such a statement: the
  index expression \<^verbatim>\<open>pods[n]\<close> reads the array that the call of \<^verbatim>\<open>append\<close> writes.
  An implementation may read the operand first, or run the call first (the gc compiler moves
  calls, \<^verbatim>\<open>append\<close> included, into temporaries ahead of the statement, and reads the
  remaining operands afterwards). The model takes the order as a parameter.
\<close>

datatype eval_order = OperandFirst | CallFirst

text \<open>
  The collaborators that are functions of their arguments:
  \<^verbatim>\<open>metav1.LabelSelectorAsSelector\<close> followed by \<^verbatim>\<open>selector.String()\<close>, from the
  value of the "app" label; \<^verbatim>\<open>hashring.New(nodes).GetNode(key)\<close> (\<open>None\<close> when the
  second result \<^verbatim>\<open>ok\<close> is false); the first \<^verbatim>\<open>Int63()\<close> of
  \<^verbatim>\<open>rand.NewSource(seed)\<close>; and the evaluation order of the compiler.
\<close>

record externals =
  LabelSelectorAsSelector :: "string \<Rightarrow> string + string"
  GetNode :: "string list \<Rightarrow> string \<Rightarrow> string option"
  NewSource_Int63 :: "int \<Rightarrow> 64 word"
  order :: eval_order

subsection \<open>ListRunningPods\<close>

text \<open>
  The loop over \<^verbatim>\<open>podList.Items\<close>: \<open>i\<close> is the index of the first item of the list
  still to visit, the accumulator the slice \<^verbatim>\<open>runningPods\<close> and the log so far.
\<close>

fun running_loop ::
  "nat \<Rightarrow> pod list \<Rightarrow> pod_ptr list \<times> log_entry list \<Rightarrow> pod_ptr list \<times> log_entry list" where
  "running_loop i [] (runningPods, tr) = (runningPods, tr)"
| "running_loop i (item # items) (runningPods, tr) =
     (if Phase item = PodRunning
      then running_loop (i + 1) items
             (runningPods @ [(i, item)], tr @ [DebugPodRunning (Name item)])
      else running_loop (i + 1) items (runningPods, tr))"

text \<open>
  \<^verbatim>\<open>sort.Slice\<close> with the comparison \<^verbatim>\<open>runningPods[i].Name < runningPods[j].Name\<close>.
  It is modelled by insertion sort on the name, which is what \<^verbatim>\<open>sort.Slice\<close> runs on a
  slice of up to 12 elements. On longer slices \<^verbatim>\<open>sort.Slice\<close> is not stable: pods of
  equal name may come in another order than here. No theorem below depends on the order of
  pods of equal name; the examples have at most three pods.
\<close>

definition sort_Slice :: "pod_ptr list \<Rightarrow> pod_ptr list" where
  "sort_Slice pods = sort_key ptr_Name pods"

text \<open>
  \<^verbatim>\<open>depl.ObjectMeta.Name\<close> dereferences \<^verbatim>\<open>depl\<close> first, and \<^verbatim>\<open>client.List\<close>
  calls through the interface value: each panics on nil.
\<close>

definition ListRunningPods ::
  "externals \<Rightarrow> pod_client option \<Rightarrow> deployment option \<Rightarrow> world
     \<Rightarrow> (error + pod_ptr list) \<times> world" where
  "ListRunningPods ext client depl w =
     (case depl of
        None \<Rightarrow> (Inl (Panic NilDereference), w)
      | Some d \<Rightarrow>
          (case LabelSelectorAsSelector ext (ObjectMeta_Name d) of
             Inl err \<Rightarrow> (Inl (ApiError err), w)
           | Inr selector \<Rightarrow>
               (case client of
                  None \<Rightarrow> (Inl (Panic NilDereference), w)
                | Some c \<Rightarrow>
                    (case c (list_calls w) selector of
                       Inl err \<Rightarrow> (Inl (ApiError err), w\<lparr>list_calls := list_calls w + 1\<rparr>)
                     | Inr items \<Rightarrow>
                         (case running_loop 0 items ([], trace w) of
                            (runningPods, tr) \<Rightarrow>
                              (Inr (sort_Slice runningPods),
                               w\<lparr>list_calls := list_calls w + 1, trace := tr\<rparr>))))))"

subsection \<open>RandomPodChooser\<close>

text \<open>
  Both chooser structs hold \<^verbatim>\<open>PodClient\<close> and \<^verbatim>\<open>Deployment\<close>;
  \<^verbatim>\<open>RandomPodChooser\<close> adds \<^verbatim>\<open>RandSource\<close> (an interface value: nil, or a
  reference to a source object of the world), \<^verbatim>\<open>StickyPodChooser\<close> adds
  \<^verbatim>\<open>Key\<close>.
\<close>

record chooser =
  PodClient :: "pod_client option"
  Deployment :: "deployment option"

record RandomPodChooser = chooser +
  RandSource :: "nat option"

record StickyPodChooser = chooser +
  Key :: string

text \<open>
  What \<^verbatim>\<open>ChoosePod\<close> returns: the error, or the chosen pod and the other pods
  (\<^verbatim>\<open>(*corev1.Pod, []*corev1.Pod, error)\<close>; pointers may be nil).
\<close>

type_synonym choose_result = "error + pod_ptr option \<times> pod_ptr option list"

text \<open>
  \<^verbatim>\<open>(*rand.Rand).Int\<close> of the Go library, on a platform whose \<^verbatim>\<open>int\<close> has 64 bits:
  \<^verbatim>\<open>u := uint(r.Int63()); return int(u << 1 >> 1)\<close>.
\<close>

definition rand_Int :: "64 word \<Rightarrow> int" where
  "rand_Int v = uint (drop_bit 1 (push_bit 1 v :: 64 word))"

text \<open>
  \<^verbatim>\<open>append(s[0:n], ys...)\<close> when the result fits the capacity of \<open>s\<close>: the elements
  are copied into the backing array of \<open>s\<close> from offset \<open>n\<close> on (as by memmove), and no
  array is allocated. \<open>arr\<close> is the backing array up to \<^verbatim>\<open>len(s)\<close>. This is the case of
  \<^verbatim>\<open>append(pods[0:n], pods[n+1:]...)\<close>, whose result has \<^verbatim>\<open>len(pods)-1\<close>
  elements.
\<close>

definition append_in_place :: "'a list \<Rightarrow> nat \<Rightarrow> 'a list \<Rightarrow> 'a list" where
  "append_in_place arr n ys = take n arr @ ys @ drop (n + length ys) arr"

text \<open>
  Lines 39 to 43: the source is the chooser's \<^verbatim>\<open>RandSource\<close> or, when that is nil, a
  fresh \<^verbatim>\<open>rand.NewSource(time.Now().Unix())\<close> held in a local variable only;
  \<^verbatim>\<open>rand.New(randSource)\<close> wraps it and \<^verbatim>\<open>rnd.Int()\<close> asks it for one
  \<^verbatim>\<open>Int63()\<close>.
\<close>

definition next_Int63 :: "externals \<Rightarrow> nat option \<Rightarrow> world \<Rightarrow> 64 word \<times> world" where
  "next_Int63 ext randSource w =
     (case randSource of
        None \<Rightarrow> (NewSource_Int63 ext (unix_time w), w)
      | Some a \<Rightarrow>
          (case Int63 (sources w a) of
             (v, s) \<Rightarrow> (v, w\<lparr>sources := (sources w)(a := s)\<rparr>)))"

text \<open>
  Line 44, \<^verbatim>\<open>n := rnd.Int() % len(pods)\<close>, from the value \<open>v\<close> the source gave.
  \<^verbatim>\<open>%\<close> of Go truncates towards zero, which is \<open>smod\<close>.
\<close>

definition drawn_index :: "64 word \<Rightarrow> nat \<Rightarrow> int" where
  "drawn_index v len = rand_Int v smod int len"

text \<open>
  The receiver is a pointer; the model returns the struct it points to beside the result and
  the world, so that a write to a field would show. In the last statement
  \<^verbatim>\<open>pods[n]\<close> is read from the array that \<^verbatim>\<open>append\<close> writes: \<open>order ext\<close> says
  which comes first.
\<close>

definition RandomPodChooser_ChoosePod ::
  "externals \<Rightarrow> RandomPodChooser \<Rightarrow> world \<Rightarrow> choose_result \<times> RandomPodChooser \<times> world" where
  "RandomPodChooser_ChoosePod ext pc w =
     (case ListRunningPods ext (PodClient pc) (Deployment pc) w of
        (Inl err, w1) \<Rightarrow> (Inl err, pc, w1)
      | (Inr pods, w1) \<Rightarrow>
          if length pods = 0 then (Inl NoBuilderPodsRunning, pc, w1)
          else
            (case next_Int63 ext (RandSource pc) w1 of
               (v, w2) \<Rightarrow>
                 let n = drawn_index v (length pods);
                     w3 = w2\<lparr>trace := trace w2 @ [DebugRandomChoice (length pods) n]\<rparr>
                 in if n < 0 \<or> int (length pods) \<le> n
                    then (Inl (Panic IndexOutOfRange), pc, w3)
                    else
                      let i = nat n;
                          tail = drop (i + 1) pods;
                          arr = append_in_place pods i tail;
                          others = take (i + length tail) arr;
                          chosen = (case order ext of
                                      OperandFirst \<Rightarrow> pods ! i
                                    | CallFirst \<Rightarrow> arr ! i)
                      in (Inr (Some chosen, map Some others), pc, w3)))"

subsection \<open>StickyPodChooser\<close>

text \<open>The first loop: \<^verbatim>\<open>podNames\<close> and \<^verbatim>\<open>podMap\<close>.\<close>

fun names_loop ::
  "pod_ptr list \<Rightarrow> string list \<times> (string \<rightharpoonup> pod_ptr) \<Rightarrow> string list \<times> (string \<rightharpoonup> pod_ptr)" where
  "names_loop [] (podNames, podMap) = (podNames, podMap)"
| "names_loop (pod # pods) (podNames, podMap) =
     names_loop pods (podNames @ [ptr_Name pod], podMap(ptr_Name pod \<mapsto> pod))"

text \<open>
  The second loop: \<^verbatim>\<open>otherPods\<close> and the index \<open>i\<close>. \<^verbatim>\<open>chosenPod.Name\<close> panics on
  a nil \<^verbatim>\<open>chosenPod\<close>, \<^verbatim>\<open>otherPods[i] = pod\<close> panics past the end of the slice.
\<close>

fun others_loop ::
  "pod_ptr option \<Rightarrow> pod_ptr list \<Rightarrow> pod_ptr option list \<times> nat
     \<Rightarrow> error + pod_ptr option list \<times> nat" where
  "others_loop chosenPod [] (otherPods, i) = Inr (otherPods, i)"
| "others_loop chosenPod (pod # pods) (otherPods, i) =
     (case chosenPod of
        None \<Rightarrow> Inl (Panic NilDereference)
      | Some c \<Rightarrow>
          if ptr_Name pod = ptr_Name c then others_loop chosenPod pods (otherPods, i)
          else if i < length otherPods
               then others_loop chosenPod pods (otherPods[i := Some pod], i + 1)
               else Inl (Panic IndexOutOfRange))"

text \<open>
  \<^verbatim>\<open>make([]*corev1.Pod, len(pods)-1)\<close> panics when \<^verbatim>\<open>len(pods)\<close> is 0. The branch
  marked NOTREACHED in the source builds a \<^verbatim>\<open>RandomPodChooser\<close> with a nil
  \<^verbatim>\<open>RandSource\<close> and calls its \<^verbatim>\<open>ChoosePod\<close>.
\<close>

definition StickyPodChooser_ChoosePod ::
  "externals \<Rightarrow> StickyPodChooser \<Rightarrow> world \<Rightarrow> choose_result \<times> StickyPodChooser \<times> world" where
  "StickyPodChooser_ChoosePod ext pc w =
     (case ListRunningPods ext (PodClient pc) (Deployment pc) w of
        (Inl err, w1) \<Rightarrow> (Inl err, pc, w1)
      | (Inr pods, w1) \<Rightarrow>
          (case names_loop pods ([], Map.empty) of
             (podNames, podMap) \<Rightarrow>
               (case GetNode ext podNames (Key pc) of
                  None \<Rightarrow>
                    (case RandomPodChooser_ChoosePod ext
                            \<lparr>PodClient = PodClient pc, Deployment = Deployment pc,
                             RandSource = None\<rparr>
                            (w1\<lparr>trace := trace w1 @ [ErrorNoPodForKey (Key pc)]\<rparr>) of
                       (res, rpc, w2) \<Rightarrow> (res, pc, w2))
                | Some chosen \<Rightarrow>
                    let chosenPod = podMap chosen
                    in if length pods = 0
                       then (Inl (Panic MakeSliceLenOutOfRange), pc, w1)
                       else
                         (case others_loop chosenPod pods
                                 (replicate (length pods - 1) None, 0) of
                            Inl err \<Rightarrow> (Inl err, pc, w1)
                          | Inr (otherPods, i) \<Rightarrow> (Inr (chosenPod, otherPods), pc, w1)))))"

subsection \<open>What the specification asks of a selection\<close>

text \<open>
  The specification's words for a selection result, given the discovered sequence:
  \<open>chosen\<close> is not among \<open>others\<close>; \<open>others\<close> has one element less than the sequence;
  \<open>chosen\<close> and \<open>others\<close> together are the discovered pods, without duplicates; and
  \<open>others\<close> is the sequence with the one chosen element removed, order otherwise kept.
  This definition is the specification's, not the code's.
\<close>

definition selection_of ::
  "pod_ptr list \<Rightarrow> pod_ptr option \<Rightarrow> pod_ptr option list \<Rightarrow> bool" where
  "selection_of pods chosen others \<longleftrightarrow>
     chosen \<notin> set others
     \<and> length others = length pods - 1
     \<and> insert chosen (set others) = Some ` set pods
     \<and> distinct (chosen # others)
     \<and> (\<exists>i < length pods.
           chosen = Some (pods ! i) \<and> others = map Some (take i pods @ drop (Suc i) pods))"

text \<open>
  The values a source can give (\<^verbatim>\<open>Int63\<close> returns a non-negative 63-bit integer, so
  an \<^verbatim>\<open>int64\<close> below \<open>2 ^ 63\<close> read as unsigned) for which line 44 draws the index
  \<open>i\<close> from a slice of \<open>len\<close> pods. Each index is equally
  likely, over the source's range of values, when these sets have the same size for all
  indices.
\<close>

definition draws_for :: "nat \<Rightarrow> nat \<Rightarrow> 64 word set" where
  "draws_for len i = {v. unat v < 2 ^ 63 \<and> drawn_index v len = int i}"

subsection \<open>A configuration to run the code on\<close>

text \<open>
  Concrete collaborators for the examples. \<open>example_ring\<close> stands in for the hash ring: like
  \<^verbatim>\<open>GetNode\<close> of the library it fails exactly on a ring without nodes and otherwise
  answers one of the nodes; which one is of no interest here.
\<close>

definition example_ring :: "string list \<Rightarrow> string \<Rightarrow> string option" where
  "example_ring nodes key =
     (if nodes = [] then None
      else Some (if even (length key) then last nodes else hd nodes))"

definition example_ext :: "eval_order \<Rightarrow> externals" where
  "example_ext ord =
     \<lparr>LabelSelectorAsSelector = (\<lambda>app. Inr (''app='' @ app)),
      GetNode = example_ring,
      NewSource_Int63 = (\<lambda>seed. word_of_int seed),
      order = ord\<rparr>"

definition example_world :: world where
  "example_world =
     \<lparr>list_calls = 0, unix_time = 1600000001,
      sources = (\<lambda>a. \<lparr>draws = (\<lambda>k. of_nat (a + k)), pos = 0\<rparr>),
      trace = []\<rparr>"

definition buildkit :: deployment where
  "buildkit = \<lparr>ObjectMeta_Name = ''buildkit''\<rparr>"

definition running :: "string \<Rightarrow> pod" where
  "running name = \<lparr>Name = name, Phase = ''Running''\<rparr>"

definition pending :: "string \<Rightarrow> pod" where
  "pending name = \<lparr>Name = name, Phase = ''Pending''\<rparr>"

text \<open>A client that answers every list call with the same items.\<close>

definition steady_client :: "pod list \<Rightarrow> pod_client" where
  "steady_client items = (\<lambda>k selector. Inr items)"

text \<open>A client that answers the list calls in turn from a script, and fails after it.\<close>

definition scripted_client :: "(string + pod list) list \<Rightarrow> pod_client" where
  "scripted_client script =
     (\<lambda>k selector. if k < length script then script ! k else Inl ''connection refused'')"

text \<open>Choosers for the deployment \<open>buildkit\<close>.\<close>

definition random_chooser :: "pod_client \<Rightarrow> nat option \<Rightarrow> RandomPodChooser" where
  "random_chooser client src =
     \<lparr>PodClient = Some client, Deployment = Some buildkit, RandSource = src\<rparr>"

definition sticky_chooser :: "pod_client \<Rightarrow> string \<Rightarrow> StickyPodChooser" where
  "sticky_chooser client key =
     \<lparr>PodClient = Some client, Deployment = Some buildkit, Key = key\<rparr>"

subsection \<open>Facts about ListRunningPods\<close>

lemma running_loop_eq:
  "running_loop i items (acc, tr) =
     (acc @ filter (\<lambda>p. ptr_Phase p = PodRunning) (enumerate i items),
      tr @ map (\<lambda>p. DebugPodRunning (ptr_Name p))
             (filter (\<lambda>p. ptr_Phase p = PodRunning) (enumerate i items)))"
  by (induction items arbitrary: i acc tr) (simp_all add: ptr_Phase_def ptr_Name_def)

subsection \<open>Facts about the random index and the slice arithmetic\<close>

lemma rand_Int_eq: "rand_Int v = uint v mod 2 ^ 63"
proof -
  have shift: "drop_bit 1 (push_bit 1 v :: 64 word) = take_bit 63 v"
  proof (rule bit_word_eqI)
    fix n assume "n < LENGTH(64)"
    then show "bit (drop_bit 1 (push_bit 1 v :: 64 word)) n = bit (take_bit 63 v) n"
      unfolding bit_drop_bit_eq bit_push_bit_iff bit_take_bit_iff
      by (auto simp add: possible_bit_word)
  qed
  have "rand_Int v = uint (take_bit 63 v)"
    by (simp only: rand_Int_def shift)
  also have "\<dots> = take_bit 63 (uint v)"
    by (rule unsigned_take_bit_eq)
  also have "\<dots> = uint v mod 2 ^ 63"
    by (rule take_bit_eq_mod)
  finally show ?thesis .
qed

lemma rand_Int_range: "0 \<le> rand_Int v" "rand_Int v < 2 ^ 63"
  by (simp_all add: rand_Int_eq)

lemma smod_nonneg: "0 \<le> k \<Longrightarrow> 0 < l \<Longrightarrow> k smod l = k mod (l::int)"
  by (simp add: signed_modulo_int_def sgn_if)

lemma drawn_index_eq: "0 < len \<Longrightarrow> drawn_index v len = rand_Int v mod int len"
  by (simp add: drawn_index_def smod_nonneg rand_Int_range)

lemma drawn_index_range:
  "0 < len \<Longrightarrow> 0 \<le> drawn_index v len \<and> drawn_index v len < int len"
  by (simp add: drawn_index_eq)

lemma append_in_place_shift:
  assumes "i < length pods"
  shows "append_in_place pods i (drop (Suc i) pods) =
           take i pods @ drop (Suc i) pods @ [last pods]"
proof -
  have "drop (length pods - 1) pods = [last pods]"
    using assms by (cases pods rule: rev_cases) simp_all
  with assms show ?thesis by (simp add: append_in_place_def)
qed

lemma others_take:
  assumes "i < length pods"
  shows "take (i + length (drop (Suc i) pods)) (append_in_place pods i (drop (Suc i) pods))
           = take i pods @ drop (Suc i) pods"
  using assms by (simp add: append_in_place_shift)

lemma shifted_nth:
  assumes "i < length pods"
  shows "append_in_place pods i (drop (Suc i) pods) ! i =
           (if Suc i < length pods then pods ! Suc i else pods ! i)"
proof (cases "Suc i < length pods")
  case True
  then show ?thesis using assms by (simp add: append_in_place_shift nth_append min_def)
next
  case False
  with assms have "length pods = Suc i" by simp
  then show ?thesis by (simp add: append_in_place_def)
qed

subsection \<open>What discovery returns\<close>

lemma ListRunningPods_ok:
  assumes "LabelSelectorAsSelector ext (ObjectMeta_Name d) = Inr sel"
      and "c (list_calls w) sel = Inr items"
  shows "ListRunningPods ext (Some c) (Some d) w =
           (Inr (sort_Slice (filter (\<lambda>p. ptr_Phase p = PodRunning) (enumerate 0 items))),
            w\<lparr>list_calls := list_calls w + 1,
              trace := trace w @ map (\<lambda>p. DebugPodRunning (ptr_Name p))
                         (filter (\<lambda>p. ptr_Phase p = PodRunning) (enumerate 0 items))\<rparr>)"
  using assms by (simp add: ListRunningPods_def running_loop_eq)

lemma ListRunningPods_Inr_D:
  assumes "ListRunningPods ext client depl w = (Inr pods, w1)"
  shows "\<exists>c d sel items. client = Some c \<and> depl = Some d
           \<and> LabelSelectorAsSelector ext (ObjectMeta_Name d) = Inr sel
           \<and> c (list_calls w) sel = Inr items
           \<and> pods = sort_Slice (filter (\<lambda>p. ptr_Phase p = PodRunning) (enumerate 0 items))
           \<and> w1 = w\<lparr>list_calls := list_calls w + 1,
              trace := trace w @ map (\<lambda>p. DebugPodRunning (ptr_Name p))
                         (filter (\<lambda>p. ptr_Phase p = PodRunning) (enumerate 0 items))\<rparr>"
  using assms
  by (auto simp add: ListRunningPods_def running_loop_eq split: option.splits sum.splits)

lemma running_distinct: "distinct (sort_Slice (filter P (enumerate i items)))"
  by (simp add: sort_Slice_def)

lemma running_sorted: "sorted (map ptr_Name (sort_Slice xs))"
  by (simp add: sort_Slice_def)

lemma running_set:
  "set (sort_Slice (filter (\<lambda>p. ptr_Phase p = PodRunning) (enumerate 0 items))) =
     {(i, items ! i) | i. i < length items \<and> Phase (items ! i) = PodRunning}"
  by (auto simp add: sort_Slice_def ptr_Phase_def in_set_enumerate_eq)

lemma discovered_distinct:
  "ListRunningPods ext client depl w = (Inr pods, w1) \<Longrightarrow> distinct pods"
  by (auto dest!: ListRunningPods_Inr_D simp add: running_distinct)

lemma discovered_sorted:
  "ListRunningPods ext client depl w = (Inr pods, w1) \<Longrightarrow> sorted (map ptr_Name pods)"
  by (auto dest!: ListRunningPods_Inr_D simp add: running_sorted)

subsection \<open>The run of RandomPodChooser on a non-empty discovery\<close>

lemma append_in_place_Nil: "append_in_place arr n [] = arr"
  by (simp add: append_in_place_def)

lemma Random_found:
  assumes "ListRunningPods ext (PodClient pc) (Deployment pc) w = (Inr pods, w1)"
      and "pods \<noteq> []"
      and "next_Int63 ext (RandSource pc) w1 = (v, w2)"
      and "n = nat (drawn_index v (length pods))"
  shows "RandomPodChooser_ChoosePod ext pc w =
           (Inr (Some (case order ext of
                         OperandFirst \<Rightarrow> pods ! n
                       | CallFirst \<Rightarrow> if Suc n < length pods then pods ! Suc n else pods ! n),
                 map Some (take n pods @ drop (Suc n) pods)),
            pc,
            w2\<lparr>trace := trace w2 @ [DebugRandomChoice (length pods) (drawn_index v (length pods))]\<rparr>)"
    and "n < length pods"
proof -
  have len: "0 < length pods" using assms(2) by simp
  from drawn_index_range [OF len, of v]
  have r: "0 \<le> drawn_index v (length pods)" "drawn_index v (length pods) < int (length pods)"
    by simp_all
  then show n: "n < length pods" using assms(4) by linarith
  show "RandomPodChooser_ChoosePod ext pc w =
           (Inr (Some (case order ext of
                         OperandFirst \<Rightarrow> pods ! n
                       | CallFirst \<Rightarrow> if Suc n < length pods then pods ! Suc n else pods ! n),
                 map Some (take n pods @ drop (Suc n) pods)),
            pc,
            w2\<lparr>trace := trace w2 @ [DebugRandomChoice (length pods) (drawn_index v (length pods))]\<rparr>)"
    using assms(1,2,3) r n others_take [OF n] shifted_nth [OF n]
    by (simp add: RandomPodChooser_ChoosePod_def Let_def assms(4) [symmetric]
        append_in_place_Nil split: eval_order.split)
qed

subsection \<open>The two loops of StickyPodChooser\<close>

lemma names_loop_fst: "fst (names_loop pods (ns, m)) = ns @ map ptr_Name pods"
  by (induction pods arbitrary: ns m) simp_all

lemma names_loop_snd:
  "snd (names_loop pods (ns, m)) c =
     (case filter (\<lambda>p. ptr_Name p = c) pods of [] \<Rightarrow> m c | q # qs \<Rightarrow> Some (last (q # qs)))"
  by (induction pods arbitrary: ns m) (auto split: list.splits)

lemma names_loop_eq:
  "names_loop pods ([], Map.empty) =
     (map ptr_Name pods,
      \<lambda>c. case filter (\<lambda>p. ptr_Name p = c) pods of [] \<Rightarrow> None | q # qs \<Rightarrow> Some (last (q # qs)))"
  by (rule prod_eqI) (auto simp add: names_loop_fst names_loop_snd)

lemma others_loop_eq:
  assumes "i + length (filter (\<lambda>p. ptr_Name p \<noteq> ptr_Name ch) pods) \<le> length os"
  shows "others_loop (Some ch) pods (os, i) =
           Inr (take i os @ map Some (filter (\<lambda>p. ptr_Name p \<noteq> ptr_Name ch) pods)
                  @ drop (i + length (filter (\<lambda>p. ptr_Name p \<noteq> ptr_Name ch) pods)) os,
                i + length (filter (\<lambda>p. ptr_Name p \<noteq> ptr_Name ch) pods))"
  using assms
proof (induction pods arbitrary: os i)
  case Nil
  then show ?case by simp
next
  case (Cons p ps)
  show ?case
  proof (cases "ptr_Name p = ptr_Name ch")
    case True
    with Cons show ?thesis by simp
  next
    case False
    with Cons.prems have i: "i < length os"
      and le: "Suc i + length (filter (\<lambda>p. ptr_Name p \<noteq> ptr_Name ch) ps) \<le> length (os[i := Some p])"
      by simp_all
    from Cons.IH [OF le] False i show ?thesis
      by (simp add: take_Suc_conv_app_nth)
  qed
qed

subsection \<open>The two ways out of StickyPodChooser after a discovery\<close>

lemma Sticky_fallback:
  assumes "ListRunningPods ext (PodClient pc) (Deployment pc) w = (Inr pods, w1)"
      and "GetNode ext (map ptr_Name pods) (Key pc) = None"
  shows "StickyPodChooser_ChoosePod ext pc w =
           (case RandomPodChooser_ChoosePod ext
                   \<lparr>PodClient = PodClient pc, Deployment = Deployment pc, RandSource = None\<rparr>
                   (w1\<lparr>trace := trace w1 @ [ErrorNoPodForKey (Key pc)]\<rparr>) of
              (res, rpc, w2) \<Rightarrow> (res, pc, w2))"
  using assms by (simp add: StickyPodChooser_ChoosePod_def names_loop_eq)

lemma filter_other_length:
  "length (filter (\<lambda>p. ptr_Name p \<noteq> c) pods) =
     length pods - length (filter (\<lambda>p. ptr_Name p = c) pods)"
  using sum_length_filter_compl [of "\<lambda>p. ptr_Name p = c" pods] by simp

lemma Sticky_found:
  assumes "ListRunningPods ext (PodClient pc) (Deployment pc) w = (Inr pods, w1)"
      and "GetNode ext (map ptr_Name pods) (Key pc) = Some c"
      and "c \<in> set (map ptr_Name pods)"
  shows "StickyPodChooser_ChoosePod ext pc w =
           (Inr (Some (last (filter (\<lambda>p. ptr_Name p = c) pods)),
                 map Some (filter (\<lambda>p. ptr_Name p \<noteq> c) pods)
                   @ replicate (length (filter (\<lambda>p. ptr_Name p = c) pods) - 1) None),
            pc, w1)"
proof -
  define same where "same = filter (\<lambda>p. ptr_Name p = c) pods"
  define ch where "ch = last same"
  from assms(3) have ne: "same \<noteq> []"
    by (auto simp add: same_def filter_empty_conv)
  then have "ch \<in> set same" by (simp add: ch_def)
  then have chn: "ptr_Name ch = c" by (simp add: same_def)
  from assms(3) have pods: "pods \<noteq> []" by auto
  have lookup: "(case same of [] \<Rightarrow> None | q # qs \<Rightarrow> Some (last (q # qs))) = Some ch"
    using ne by (cases same) (simp_all add: ch_def)
  have k: "0 + length (filter (\<lambda>p. ptr_Name p \<noteq> ptr_Name ch) pods)
             \<le> length (replicate (length pods - 1) (None :: pod_ptr option))"
    using ne unfolding chn filter_other_length same_def [symmetric]
    by (cases same) simp_all
  have le: "length same \<le> length pods" "0 < length same"
    using ne by (simp_all add: same_def)
  have tail: "drop (length (filter (\<lambda>p. ptr_Name p \<noteq> c) pods))
                (replicate (length pods - 1) (None :: pod_ptr option))
              = replicate (length same - 1) None"
    unfolding filter_other_length same_def [symmetric]
    using le by (simp add: algebra_simps)
  show ?thesis
    using assms(1,2) pods lookup others_loop_eq [OF k] tail
    by (simp add: StickyPodChooser_ChoosePod_def names_loop_eq same_def [symmetric]
        ch_def [symmetric] chn)
qed

subsection \<open>Failures, and what a call leaves alone\<close>

lemma ListRunningPods_fails:
  assumes "LabelSelectorAsSelector ext (ObjectMeta_Name d) = Inr sel"
      and "c (list_calls w) sel = Inl err"
  shows "ListRunningPods ext (Some c) (Some d) w =
           (Inl (ApiError err), w\<lparr>list_calls := list_calls w + 1\<rparr>)"
  using assms by (simp add: ListRunningPods_def)

lemma ListRunningPods_frame:
  assumes "ListRunningPods ext client depl w = (r, w1)"
  shows "sources w1 = sources w" and "unix_time w1 = unix_time w"
    and "\<exists>tr. trace w1 = trace w @ tr"
  using assms
  by (auto simp add: ListRunningPods_def running_loop_eq
      split: option.splits sum.splits)

lemma ListRunningPods_no_panic:
  "ListRunningPods ext (Some c) (Some d) w = (r, w1) \<Longrightarrow> r \<noteq> Inl (Panic p)"
  by (auto simp add: ListRunningPods_def running_loop_eq split: sum.splits)

lemma ListRunningPods_calls:
  "ListRunningPods ext client depl w = (Inr pods, w1) \<Longrightarrow> list_calls w1 = list_calls w + 1"
  by (auto dest!: ListRunningPods_Inr_D)

lemma Random_failed:
  "ListRunningPods ext (PodClient pc) (Deployment pc) w = (Inl err, w1)
     \<Longrightarrow> RandomPodChooser_ChoosePod ext pc w = (Inl err, pc, w1)"
  by (simp add: RandomPodChooser_ChoosePod_def)

lemma Random_empty:
  "ListRunningPods ext (PodClient pc) (Deployment pc) w = (Inr [], w1)
     \<Longrightarrow> RandomPodChooser_ChoosePod ext pc w = (Inl NoBuilderPodsRunning, pc, w1)"
  by (simp add: RandomPodChooser_ChoosePod_def)

lemma Sticky_failed:
  "ListRunningPods ext (PodClient pc) (Deployment pc) w = (Inl err, w1)
     \<Longrightarrow> StickyPodChooser_ChoosePod ext pc w = (Inl err, pc, w1)"
  by (simp add: StickyPodChooser_ChoosePod_def)

lemma Random_receiver: "fst (snd (RandomPodChooser_ChoosePod ext pc w)) = pc"
  by (simp add: RandomPodChooser_ChoosePod_def Let_def split: prod.splits sum.splits)

lemma Sticky_receiver: "fst (snd (StickyPodChooser_ChoosePod ext pc w)) = pc"
  by (simp add: StickyPodChooser_ChoosePod_def Let_def split: prod.splits sum.splits option.splits)

lemma next_Int63_nil: "next_Int63 ext None w = (NewSource_Int63 ext (unix_time w), w)"
  by (simp add: next_Int63_def)

lemma next_Int63_trace: "next_Int63 ext src w = (v, w2) \<Longrightarrow> trace w2 = trace w"
  by (auto simp add: next_Int63_def split: option.splits prod.splits)

lemma next_Int63_calls: "next_Int63 ext src w = (v, w2) \<Longrightarrow> list_calls w2 = list_calls w"
  by (auto simp add: next_Int63_def split: option.splits prod.splits)

lemma Random_nil_sources:
  assumes "RandSource pc = None"
  shows "sources (snd (snd (RandomPodChooser_ChoosePod ext pc w))) = sources w"
proof -
  obtain r w1 where l: "ListRunningPods ext (PodClient pc) (Deployment pc) w = (r, w1)"
    by (cases "ListRunningPods ext (PodClient pc) (Deployment pc) w")
  note f = ListRunningPods_frame(1) [OF l]
  show ?thesis
  proof (cases r)
    case (Inl err)
    with l f show ?thesis by (simp add: Random_failed)
  next
    case (Inr pods)
    show ?thesis
    proof (cases "pods = []")
      case True
      with l f Inr show ?thesis by (simp add: Random_empty)
    next
      case False
      from l Inr have l': "ListRunningPods ext (PodClient pc) (Deployment pc) w = (Inr pods, w1)"
        by simp
      have n: "next_Int63 ext (RandSource pc) w1 = (NewSource_Int63 ext (unix_time w1), w1)"
        using assms by (simp add: next_Int63_nil)
      from Random_found(1) [OF l' False n refl] f show ?thesis by simp
    qed
  qed
qed

lemma Random_trace:
  "\<exists>tr. trace (snd (snd (RandomPodChooser_ChoosePod ext pc w))) = trace w @ tr"
proof -
  obtain r w1 where l: "ListRunningPods ext (PodClient pc) (Deployment pc) w = (r, w1)"
    by (cases "ListRunningPods ext (PodClient pc) (Deployment pc) w")
  from ListRunningPods_frame(3) [OF l] obtain tr where f: "trace w1 = trace w @ tr" ..
  show ?thesis
  proof (cases r)
    case (Inl err)
    with l f show ?thesis by (simp add: Random_failed)
  next
    case (Inr pods)
    show ?thesis
    proof (cases "pods = []")
      case True
      with l f Inr show ?thesis by (simp add: Random_empty)
    next
      case False
      from l Inr have l': "ListRunningPods ext (PodClient pc) (Deployment pc) w = (Inr pods, w1)"
        by simp
      obtain v w2 where n: "next_Int63 ext (RandSource pc) w1 = (v, w2)"
        by (cases "next_Int63 ext (RandSource pc) w1")
      from Random_found(1) [OF l' False n refl] f next_Int63_trace [OF n] show ?thesis by simp
    qed
  qed
qed

lemma Random_no_panic:
  assumes "PodClient pc = Some c" and "Deployment pc = Some d"
  shows "fst (RandomPodChooser_ChoosePod ext pc w) \<noteq> Inl (Panic p)"
proof -
  obtain r w1 where l: "ListRunningPods ext (PodClient pc) (Deployment pc) w = (r, w1)"
    by (cases "ListRunningPods ext (PodClient pc) (Deployment pc) w")
  with assms have np: "r \<noteq> Inl (Panic p)" by (auto dest: ListRunningPods_no_panic)
  show ?thesis
  proof (cases r)
    case (Inl err)
    with l np show ?thesis by (simp add: Random_failed)
  next
    case (Inr pods)
    show ?thesis
    proof (cases "pods = []")
      case True
      with l Inr show ?thesis by (simp add: Random_empty)
    next
      case False
      from l Inr have l': "ListRunningPods ext (PodClient pc) (Deployment pc) w = (Inr pods, w1)"
        by simp
      obtain v w2 where n: "next_Int63 ext (RandSource pc) w1 = (v, w2)"
        by (cases "next_Int63 ext (RandSource pc) w1")
      from Random_found(1) [OF l' False n refl] show ?thesis by simp
    qed
  qed
qed

subsection \<open>Lists of distinct names\<close>

lemma distinct_map_filter_le:
  "distinct (map f xs) \<Longrightarrow> length (filter (\<lambda>x. f x = c) xs) \<le> 1"
proof (induction xs)
  case Nil
  then show ?case by simp
next
  case (Cons a xs)
  show ?case
  proof (cases "f a = c")
    case True
    from Cons.prems have "f a \<notin> f ` set xs" by simp
    with True have "\<forall>x \<in> set xs. f x \<noteq> c" by blast
    then have "filter (\<lambda>x. f x = c) xs = []" by (simp add: filter_empty_conv)
    with True show ?thesis by simp
  next
    case False
    with Cons show ?thesis by simp
  qed
qed

lemma filter_unique_key:
  assumes "distinct (map f xs)" and "i < length xs" and "f (xs ! i) = c"
  shows "filter (\<lambda>x. f x \<noteq> c) xs = take i xs @ drop (Suc i) xs"
    and "filter (\<lambda>x. f x = c) xs = [xs ! i]"
proof -
  define front where "front = take i xs"
  define rear where "rear = drop (Suc i) xs"
  have split: "xs = front @ xs ! i # rear"
    unfolding front_def rear_def by (rule id_take_nth_drop [OF assms(2)])
  from assms(1) have "distinct (map f (front @ xs ! i # rear))"
    using split by simp
  with assms(3) have "c \<notin> f ` set front" and "c \<notin> f ` set rear"
    by simp_all
  then have f: "\<forall>x \<in> set front. f x \<noteq> c" and b: "\<forall>x \<in> set rear. f x \<noteq> c"
    by blast+
  then have ff: "filter (\<lambda>x. f x \<noteq> c) front = front" "filter (\<lambda>x. f x = c) front = []"
    and bb: "filter (\<lambda>x. f x \<noteq> c) rear = rear" "filter (\<lambda>x. f x = c) rear = []"
    by (simp_all add: filter_id_conv filter_empty_conv)
  have "filter (\<lambda>x. f x \<noteq> c) (front @ xs ! i # rear) = front @ rear"
    using ff bb assms(3) by simp
  then show "filter (\<lambda>x. f x \<noteq> c) xs = take i xs @ drop (Suc i) xs"
    using split unfolding front_def rear_def by simp
  have "filter (\<lambda>x. f x = c) (front @ xs ! i # rear) = [xs ! i]"
    using ff bb assms(3) by simp
  then show "filter (\<lambda>x. f x = c) xs = [xs ! i]"
    using split by simp
qed

lemma selection_of_nth:
  assumes "distinct pods" and "i < length pods"
  shows "selection_of pods (Some (pods ! i)) (map Some (take i pods @ drop (Suc i) pods))"
proof -
  define front where "front = take i pods"
  define rear where "rear = drop (Suc i) pods"
  have split: "pods = front @ pods ! i # rear"
    unfolding front_def rear_def by (rule id_take_nth_drop [OF assms(2)])
  from assms(1) have d: "distinct (front @ pods ! i # rear)"
    using split by simp
  then have notin: "pods ! i \<notin> set (front @ rear)" and dd: "distinct (front @ rear)"
    by auto
  have set: "set pods = insert (pods ! i) (set (front @ rear))"
    by (subst split) auto
  have len: "length (front @ rear) = length pods - 1"
    using assms(2) by (simp add: front_def rear_def)
  have "Some (pods ! i) \<notin> set (map Some (front @ rear))"
    using notin by auto
  moreover have "length (map Some (front @ rear)) = length pods - 1"
    using len by simp
  moreover have "insert (Some (pods ! i)) (set (map Some (front @ rear))) = Some ` set pods"
    by (subst set) auto
  moreover have "distinct (Some (pods ! i) # map Some (front @ rear))"
    using notin dd by (auto simp add: distinct_map)
  ultimately show ?thesis
    unfolding selection_of_def front_def [symmetric] rear_def [symmetric]
    using assms(2) by (auto simp add: front_def rear_def)
qed

subsection \<open>How many values of the source lead to an index\<close>

lemma card_residue:
  assumes "i < n"
  shows "card {r. r < m \<and> r mod n = i} = m div n + (if i < m mod n then 1 else 0)"
proof (induction m)
  case 0
  then show ?case by simp
next
  case (Suc m)
  have fin: "finite {r. r < m \<and> r mod n = i}" by simp
  have step: "{r. r < Suc m \<and> r mod n = i} =
                (if m mod n = i then insert m {r. r < m \<and> r mod n = i}
                 else {r. r < m \<and> r mod n = i})"
    by (auto simp add: less_Suc_eq)
  have "card {r. r < Suc m \<and> r mod n = i} =
          card {r. r < m \<and> r mod n = i} + (if m mod n = i then 1 else 0)"
    unfolding step using fin by simp
  also have "\<dots> = m div n + (if i < m mod n then 1 else 0) + (if m mod n = i then 1 else 0)"
    by (simp only: Suc.IH)
  also have "\<dots> = Suc m div n + (if i < Suc m mod n then 1 else 0)"
    using assms by (auto simp add: mod_Suc div_Suc)
  finally show ?case .
qed

lemma draws_for_unat:
  assumes "0 < len"
  shows "draws_for len i = {v. unat v < 2 ^ 63 \<and> unat v mod len = i}"
proof -
  have eq: "drawn_index v len = int (unat v mod len)" if "unat v < 2 ^ 63" for v :: "64 word"
  proof -
    from that have "int (unat v) < int (2 ^ 63)"
      by (rule iffD2 [OF of_nat_less_iff])
    then have "uint v < 2 ^ 63"
      by simp
    moreover have "0 \<le> uint v" by simp
    ultimately have "uint v mod 2 ^ 63 = uint v"
      by (rule mod_pos_pos_trivial [OF _ _, rotated])
    then have "rand_Int v = uint v" by (simp only: rand_Int_eq)
    then show ?thesis
      using assms by (simp add: drawn_index_eq zmod_int)
  qed
  have "(unat v < 2 ^ 63 \<and> drawn_index v len = int i)
          \<longleftrightarrow> (unat v < 2 ^ 63 \<and> unat v mod len = i)" for v :: "64 word"
  proof (cases "unat v < 2 ^ 63")
    case True
    from eq [OF True] show ?thesis by (simp only: True simp_thms of_nat_eq_iff)
  next
    case False
    then show ?thesis by (simp only: simp_thms)
  qed
  then show ?thesis
    unfolding draws_for_def by (rule Collect_cong)
qed

lemma card_draws_for:
  assumes "i < len"
  shows "card (draws_for len i) = 2 ^ 63 div len + (if i < 2 ^ 63 mod len then 1 else 0)"
proof -
  from assms have len: "0 < len" by simp
  let ?R = "{r. r < 2 ^ 63 \<and> r mod len = i}"
  have inj: "inj_on unat (draws_for len i)"
    by (rule inj_onI) (simp add: word_unat_eq_iff)
  have "unat ` draws_for len i = ?R"
  proof (rule set_eqI, rule iffI)
    fix r assume "r \<in> unat ` draws_for len i"
    then show "r \<in> ?R" by (auto simp add: draws_for_unat [OF len])
  next
    fix r assume r: "r \<in> ?R"
    then have "r < 2 ^ LENGTH(64)" by simp
    then have "unat (of_nat r :: 64 word) = r" by (simp only: unat_of_nat mod_less)
    with r have "(of_nat r :: 64 word) \<in> draws_for len i" and "r = unat (of_nat r :: 64 word)"
      by (simp_all add: draws_for_unat [OF len])
    then show "r \<in> unat ` draws_for len i" by (rule rev_image_eqI)
  qed
  then have "card (draws_for len i) = card ?R"
    using card_image [OF inj] by simp
  then show ?thesis by (simp only: card_residue [OF assms])
qed

subsection \<open>Reading a result\<close>

lemma result_collapse: "fst x = r \<Longrightarrow> x = (r, snd x)"
  by auto

subsection \<open>Unfolding the code on concrete inputs\<close>

lemmas example_defs =
  example_ext_def example_world_def buildkit_def running_def pending_def steady_client_def
  scripted_client_def random_chooser_def sticky_chooser_def example_ring_def

lemmas run_defs =
  ListRunningPods_def RandomPodChooser_ChoosePod_def StickyPodChooser_ChoosePod_def
  next_Int63_def Int63_def drawn_index_def PodRunning_def sort_Slice_def ptr_Name_def
  append_in_place_def Let_def rand_Int_eq signed_modulo_int_def

section \<open>The claims\<close>

subsection \<open>Discovery\<close>

text \<open>
  C3. Whenever the list call succeeds, \<^verbatim>\<open>ListRunningPods\<close> returns without error, and
  the slice it returns holds a pointer to each item of the response whose phase is "Running",
  once, and to no other item; it is sorted by pod name, ascending. When no item is running
  the slice is empty and there is still no error.
\<close>
theorem ListRunningPods_running_sorted:
  assumes "LabelSelectorAsSelector ext (ObjectMeta_Name d) = Inr selector"
      and "client (list_calls w) selector = Inr items"
  shows "\<exists>pods w1. ListRunningPods ext (Some client) (Some d) w = (Inr pods, w1)
           \<and> set pods = {(i, items ! i) | i. i < length items \<and> Phase (items ! i) = PodRunning}
           \<and> distinct pods
           \<and> sorted (map ptr_Name pods)
           \<and> ((\<forall>item \<in> set items. Phase item \<noteq> PodRunning) \<longrightarrow> pods = [])"
proof -
  let ?pods = "sort_Slice (filter (\<lambda>p. ptr_Phase p = PodRunning) (enumerate 0 items))"
  have "?pods = []" if "\<forall>item \<in> set items. Phase item \<noteq> PodRunning"
  proof -
    from that have "filter (\<lambda>p. ptr_Phase p = PodRunning) (enumerate 0 items) = []"
      by (auto simp add: filter_empty_conv ptr_Phase_def in_set_enumerate_eq)
    then show ?thesis by (simp add: sort_Slice_def)
  qed
  then show ?thesis
    using ListRunningPods_ok [where c = client, OF assms] running_set [of items] running_distinct running_sorted
    by blast
qed

theorem ListRunningPods_running_sorted_witness:
  "LabelSelectorAsSelector (example_ext OperandFirst) (ObjectMeta_Name buildkit) = Inr ''app=buildkit''
   \<and> steady_client [running ''w-2'', pending ''w-3'', running ''w-1'']
        (list_calls example_world) ''app=buildkit''
       = Inr [running ''w-2'', pending ''w-3'', running ''w-1'']
   \<and> fst (ListRunningPods (example_ext OperandFirst)
        (Some (steady_client [running ''w-2'', pending ''w-3'', running ''w-1'']))
        (Some buildkit) example_world)
       = Inr [(2, running ''w-1''), (0, running ''w-2'')]
   \<and> (\<exists>pods w1. ListRunningPods (example_ext OperandFirst)
        (Some (steady_client [running ''w-2'', pending ''w-3'', running ''w-1'']))
        (Some buildkit) example_world = (Inr pods, w1)
      \<and> set pods = {(i, [running ''w-2'', pending ''w-3'', running ''w-1''] ! i) | i.
            i < length [running ''w-2'', pending ''w-3'', running ''w-1'']
            \<and> Phase ([running ''w-2'', pending ''w-3'', running ''w-1''] ! i) = PodRunning}
      \<and> distinct pods \<and> sorted (map ptr_Name pods))"
proof -
  have sel: "LabelSelectorAsSelector (example_ext OperandFirst) (ObjectMeta_Name buildkit)
               = Inr ''app=buildkit''"
    by (simp add: example_ext_def buildkit_def)
  have lst: "steady_client [running ''w-2'', pending ''w-3'', running ''w-1'']
               (list_calls example_world) ''app=buildkit''
             = Inr [running ''w-2'', pending ''w-3'', running ''w-1'']"
    by (simp add: steady_client_def)
  have run: "fst (ListRunningPods (example_ext OperandFirst)
        (Some (steady_client [running ''w-2'', pending ''w-3'', running ''w-1'']))
        (Some buildkit) example_world)
       = Inr [(2, running ''w-1''), (0, running ''w-2'')]"
    by (simp add: ListRunningPods_def example_ext_def buildkit_def steady_client_def
        running_def pending_def PodRunning_def sort_Slice_def ptr_Name_def)
  from ListRunningPods_running_sorted
         [where ext = "example_ext OperandFirst" and d = buildkit
            and selector = "''app=buildkit''"
            and client = "steady_client [running ''w-2'', pending ''w-3'', running ''w-1'']"
            and w = example_world
            and items = "[running ''w-2'', pending ''w-3'', running ''w-1'']", OF sel lst]
    sel lst run
  show ?thesis by blast
qed

subsection \<open>Errors of the list call\<close>

text \<open>
  C7. When the list call fails, \<^verbatim>\<open>ListRunningPods\<close>, \<^verbatim>\<open>RandomPodChooser.ChoosePod\<close>
  and \<^verbatim>\<open>StickyPodChooser.ChoosePod\<close> return the error of that call as it is; the
  orchestrator has served one list call more than before, so nothing was retried; and the
  error is not the "no builder pods are running" error. The same holds for the second list
  call of \<^verbatim>\<open>StickyPodChooser.ChoosePod\<close>, made when the ring lookup fails: its error is
  returned as it is, after two list calls in all.
\<close>
theorem list_failure_propagates:
  assumes "LabelSelectorAsSelector ext (ObjectMeta_Name d) = Inr selector"
      and "PodClient rpc = Some client" and "Deployment rpc = Some d"
      and "PodClient spc = Some client" and "Deployment spc = Some d"
  shows "(client (list_calls w) selector = Inl err \<longrightarrow>
            ListRunningPods ext (Some client) (Some d) w
              = (Inl (ApiError err), w\<lparr>list_calls := list_calls w + 1\<rparr>)
          \<and> RandomPodChooser_ChoosePod ext rpc w
              = (Inl (ApiError err), rpc, w\<lparr>list_calls := list_calls w + 1\<rparr>)
          \<and> StickyPodChooser_ChoosePod ext spc w
              = (Inl (ApiError err), spc, w\<lparr>list_calls := list_calls w + 1\<rparr>)
          \<and> ApiError err \<noteq> NoBuilderPodsRunning)
       \<and> (ListRunningPods ext (Some client) (Some d) w = (Inr pods, w1) \<longrightarrow>
            GetNode ext (map ptr_Name pods) (Key spc) = None \<longrightarrow>
            client (list_calls w1) selector = Inl err \<longrightarrow>
            StickyPodChooser_ChoosePod ext spc w
              = (Inl (ApiError err), spc,
                 w1\<lparr>trace := trace w1 @ [ErrorNoPodForKey (Key spc)],
                    list_calls := list_calls w1 + 1\<rparr>))"
proof (intro conjI impI)
  assume f: "client (list_calls w) selector = Inl err"
  note l = ListRunningPods_fails [where c = client, OF assms(1) f]
  show "ListRunningPods ext (Some client) (Some d) w
          = (Inl (ApiError err), w\<lparr>list_calls := list_calls w + 1\<rparr>)"
    by (fact l)
  show "RandomPodChooser_ChoosePod ext rpc w
          = (Inl (ApiError err), rpc, w\<lparr>list_calls := list_calls w + 1\<rparr>)"
    using l assms(2,3) by (simp add: Random_failed)
  show "StickyPodChooser_ChoosePod ext spc w
          = (Inl (ApiError err), spc, w\<lparr>list_calls := list_calls w + 1\<rparr>)"
    using l assms(4,5) by (simp add: Sticky_failed)
  show "ApiError err \<noteq> NoBuilderPodsRunning" by simp
next
  assume l: "ListRunningPods ext (Some client) (Some d) w = (Inr pods, w1)"
     and g: "GetNode ext (map ptr_Name pods) (Key spc) = None"
     and f: "client (list_calls w1) selector = Inl err"
  let ?w = "w1\<lparr>trace := trace w1 @ [ErrorNoPodForKey (Key spc)]\<rparr>"
  from f have f': "client (list_calls ?w) selector = Inl err" by simp
  have "ListRunningPods ext (Some client) (Some d) ?w
          = (Inl (ApiError err), ?w\<lparr>list_calls := list_calls ?w + 1\<rparr>)"
    by (rule ListRunningPods_fails [where c = client, OF assms(1) f'])
  then have "RandomPodChooser_ChoosePod ext
               \<lparr>PodClient = PodClient spc, Deployment = Deployment spc, RandSource = None\<rparr> ?w
             = (Inl (ApiError err),
                \<lparr>PodClient = PodClient spc, Deployment = Deployment spc, RandSource = None\<rparr>,
                ?w\<lparr>list_calls := list_calls ?w + 1\<rparr>)"
    using assms(4,5) by (simp add: Random_failed)
  moreover from l assms(4,5)
  have "ListRunningPods ext (PodClient spc) (Deployment spc) w = (Inr pods, w1)" by simp
  ultimately show "StickyPodChooser_ChoosePod ext spc w
      = (Inl (ApiError err), spc,
         w1\<lparr>trace := trace w1 @ [ErrorNoPodForKey (Key spc)], list_calls := list_calls w1 + 1\<rparr>)"
    using g by (simp add: Sticky_fallback)
qed

theorem list_failure_propagates_witness:
  "fst (ListRunningPods (example_ext OperandFirst)
          (Some (scripted_client [Inl ''context deadline exceeded''])) (Some buildkit)
          example_world)
     = Inl (ApiError ''context deadline exceeded'')
   \<and> RandomPodChooser_ChoosePod (example_ext OperandFirst)
        (random_chooser (scripted_client [Inl ''context deadline exceeded'']) None) example_world
     = (Inl (ApiError ''context deadline exceeded''),
        random_chooser (scripted_client [Inl ''context deadline exceeded'']) None,
        example_world\<lparr>list_calls := 1\<rparr>)
   \<and> StickyPodChooser_ChoosePod (example_ext OperandFirst)
        (sticky_chooser (scripted_client [Inl ''context deadline exceeded'']) ''session-42'')
        example_world
     = (Inl (ApiError ''context deadline exceeded''),
        sticky_chooser (scripted_client [Inl ''context deadline exceeded'']) ''session-42'',
        example_world\<lparr>list_calls := 1\<rparr>)
   \<and> StickyPodChooser_ChoosePod (example_ext OperandFirst)
        (sticky_chooser (scripted_client [Inr [pending ''w-1''], Inl ''forbidden''])
           ''session-42'')
        example_world
     = (Inl (ApiError ''forbidden''),
        sticky_chooser (scripted_client [Inr [pending ''w-1''], Inl ''forbidden'']) ''session-42'',
        example_world\<lparr>trace := [ErrorNoPodForKey ''session-42''], list_calls := 2\<rparr>)"
proof -
  let ?ext = "example_ext OperandFirst"
  let ?c1 = "scripted_client [Inl ''context deadline exceeded'']"
  let ?c2 = "scripted_client [Inr [pending ''w-1''], Inl ''forbidden'']"
  have sel: "LabelSelectorAsSelector ?ext (ObjectMeta_Name buildkit) = Inr ''app=buildkit''"
    by (simp add: example_defs)
  have f1: "?c1 (list_calls example_world) ''app=buildkit'' = Inl ''context deadline exceeded''"
    by (simp add: example_defs)
  have l2: "ListRunningPods ?ext (Some ?c2) (Some buildkit) example_world
              = (Inr [], example_world\<lparr>list_calls := 1\<rparr>)"
    by (simp add: run_defs example_defs)
  have g2: "GetNode ?ext (map ptr_Name []) (Key (sticky_chooser ?c2 ''session-42'')) = None"
    by (simp add: example_defs)
  have f2: "?c2 (list_calls (example_world\<lparr>list_calls := 1\<rparr>)) ''app=buildkit''
              = Inl ''forbidden''"
    by (simp add: example_defs)
  note t1 = list_failure_propagates
      [where ext = ?ext and d = buildkit and selector = "''app=buildkit''" and client = ?c1
         and rpc = "random_chooser ?c1 None" and spc = "sticky_chooser ?c1 ''session-42''"
         and w = example_world and err = "''context deadline exceeded''", OF sel]
  note t2 = list_failure_propagates
      [where ext = ?ext and d = buildkit and selector = "''app=buildkit''" and client = ?c2
         and rpc = "random_chooser ?c2 None" and spc = "sticky_chooser ?c2 ''session-42''"
         and w = example_world and err = "''forbidden''" and pods = "[]"
         and ?w1.0 = "example_world\<lparr>list_calls := 1\<rparr>", OF sel]
  from t1 f1 have a: "ListRunningPods ?ext (Some ?c1) (Some buildkit) example_world
         = (Inl (ApiError ''context deadline exceeded''),
            example_world\<lparr>list_calls := list_calls example_world + 1\<rparr>)"
    and b: "RandomPodChooser_ChoosePod ?ext (random_chooser ?c1 None) example_world
         = (Inl (ApiError ''context deadline exceeded''), random_chooser ?c1 None,
            example_world\<lparr>list_calls := list_calls example_world + 1\<rparr>)"
    and c: "StickyPodChooser_ChoosePod ?ext (sticky_chooser ?c1 ''session-42'') example_world
         = (Inl (ApiError ''context deadline exceeded''), sticky_chooser ?c1 ''session-42'',
            example_world\<lparr>list_calls := list_calls example_world + 1\<rparr>)"
    by (simp_all add: random_chooser_def sticky_chooser_def)
  from t2 l2 g2 f2 have d: "StickyPodChooser_ChoosePod ?ext (sticky_chooser ?c2 ''session-42'')
        example_world
      = (Inl (ApiError ''forbidden''), sticky_chooser ?c2 ''session-42'',
         example_world\<lparr>list_calls := 1,
            trace := trace (example_world\<lparr>list_calls := 1\<rparr>)
                       @ [ErrorNoPodForKey (Key (sticky_chooser ?c2 ''session-42''))],
            list_calls := list_calls (example_world\<lparr>list_calls := 1\<rparr>) + 1\<rparr>)"
    by (simp add: random_chooser_def sticky_chooser_def)
  from a b c d show ?thesis
    by (simp add: example_world_def sticky_chooser_def)
qed

subsection \<open>The chooser is left as it was\<close>

text \<open>
  C8. \<^verbatim>\<open>ChoosePod\<close> writes no field of its receiver: after the call the
  \<^verbatim>\<open>RandomPodChooser\<close> (\<^verbatim>\<open>RandSource\<close>, \<^verbatim>\<open>PodClient\<close>,
  \<^verbatim>\<open>Deployment\<close>) and the \<^verbatim>\<open>StickyPodChooser\<close> (\<^verbatim>\<open>Key\<close>,
  \<^verbatim>\<open>PodClient\<close>, \<^verbatim>\<open>Deployment\<close>) are the structs they were, on every path.
  A nil \<^verbatim>\<open>RandSource\<close> is still nil, and the source seeded from the clock is not stored
  anywhere: no source object of the world has changed.
\<close>
theorem ChoosePod_keeps_configuration:
  "fst (snd (RandomPodChooser_ChoosePod ext rpc w)) = rpc
   \<and> fst (snd (StickyPodChooser_ChoosePod ext spc w)) = spc
   \<and> (RandSource rpc = None \<longrightarrow>
        RandSource (fst (snd (RandomPodChooser_ChoosePod ext rpc w))) = None
        \<and> sources (snd (snd (RandomPodChooser_ChoosePod ext rpc w))) = sources w)"
  by (simp add: Random_receiver Sticky_receiver Random_nil_sources)

theorem ChoosePod_keeps_configuration_witness:
  "RandSource (random_chooser (steady_client [running ''w-1'', running ''w-2'']) None) = None
   \<and> fst (snd (RandomPodChooser_ChoosePod (example_ext OperandFirst)
        (random_chooser (steady_client [running ''w-1'', running ''w-2'']) None) example_world))
     = random_chooser (steady_client [running ''w-1'', running ''w-2'']) None
   \<and> sources (snd (snd (RandomPodChooser_ChoosePod (example_ext OperandFirst)
        (random_chooser (steady_client [running ''w-1'', running ''w-2'']) None) example_world)))
     = sources example_world
   \<and> fst (RandomPodChooser_ChoosePod (example_ext OperandFirst)
        (random_chooser (steady_client [running ''w-1'', running ''w-2'']) None) example_world)
     = Inr (Some (1, running ''w-2''), [Some (0, running ''w-1'')])
   \<and> fst (snd (StickyPodChooser_ChoosePod (example_ext OperandFirst)
        (sticky_chooser (steady_client [running ''w-1'', running ''w-2'']) ''session-42'')
        example_world))
     = sticky_chooser (steady_client [running ''w-1'', running ''w-2'']) ''session-42''"
proof -
  let ?rpc = "random_chooser (steady_client [running ''w-1'', running ''w-2'']) None"
  let ?spc = "sticky_chooser (steady_client [running ''w-1'', running ''w-2'']) ''session-42''"
  have nil: "RandSource ?rpc = None" by (simp add: random_chooser_def)
  have run: "fst (RandomPodChooser_ChoosePod (example_ext OperandFirst) ?rpc example_world)
               = Inr (Some (1, running ''w-2''), [Some (0, running ''w-1'')])"
    by (simp add: run_defs example_defs)
  from ChoosePod_keeps_configuration
         [where ext = "example_ext OperandFirst" and rpc = ?rpc and spc = ?spc
            and w = example_world] nil run
  show ?thesis by simp
qed

subsection \<open>StickyPodChooser and pods of equal name\<close>

text \<open>
  C10. Let the ring resolve the key to the name \<open>c\<close> of a discovered pod, and let \<open>k\<close>
  be the number of discovered pods named \<open>c\<close>. \<^verbatim>\<open>StickyPodChooser.ChoosePod\<close> returns
  a pod named \<open>c\<close>, and a slice \<^verbatim>\<open>otherPods\<close> of length \<^verbatim>\<open>len(pods)-1\<close> that holds
  the pods of another name, in order, followed by \<open>k - 1\<close> nil entries: every pod named \<open>c\<close>
  is skipped. So with two or more pods of the chosen name the slice ends in nil, and with
  pairwise distinct names it has no nil entry.
\<close>
theorem Sticky_others_nil_entries:
  assumes "ListRunningPods ext (PodClient pc) (Deployment pc) w = (Inr pods, w1)"
      and "GetNode ext (map ptr_Name pods) (Key pc) = Some c"
      and "c \<in> set (map ptr_Name pods)"
      and "k = length (filter (\<lambda>p. ptr_Name p = c) pods)"
  shows "\<exists>chosenPod otherPods.
           fst (StickyPodChooser_ChoosePod ext pc w) = Inr (Some chosenPod, otherPods)
           \<and> chosenPod \<in> set pods \<and> ptr_Name chosenPod = c
           \<and> otherPods = map Some (filter (\<lambda>p. ptr_Name p \<noteq> c) pods) @ replicate (k - 1) None
           \<and> length otherPods = length pods - 1
           \<and> (2 \<le> k \<longrightarrow> last otherPods = None \<and> None \<in> set otherPods)
           \<and> (distinct (map ptr_Name pods) \<longrightarrow> k = 1 \<and> None \<notin> set otherPods)"
proof -
  let ?same = "filter (\<lambda>p. ptr_Name p = c) pods"
  let ?others = "map Some (filter (\<lambda>p. ptr_Name p \<noteq> c) pods) @ replicate (k - 1) None"
  from assms(3) have ne: "?same \<noteq> []" by (auto simp add: filter_empty_conv)
  then have "last ?same \<in> set ?same" by (rule last_in_set)
  then have ch: "last ?same \<in> set pods" "ptr_Name (last ?same) = c" by simp_all
  from ne have k: "1 \<le> k" "k \<le> length pods"
    using assms(4) by (simp_all add: Suc_le_eq)
  have "length (filter (\<lambda>p. ptr_Name p \<noteq> c) pods) = length pods - k"
    using filter_other_length [of c pods] assms(4) by simp
  with k have len: "length ?others = length pods - 1" by simp
  have dup: "last ?others = None \<and> None \<in> set ?others" if "2 \<le> k"
    using that by (cases "k - 1") auto
  have one: "k = 1 \<and> None \<notin> set ?others" if d: "distinct (map ptr_Name pods)"
  proof -
    from d have "length ?same \<le> 1" by (rule distinct_map_filter_le)
    with k assms(4) have "k = 1" by simp
    then show ?thesis by auto
  qed
  from Sticky_found [OF assms(1,2,3)] ch len dup one show ?thesis
    unfolding assms(4) [symmetric] by auto
qed

theorem Sticky_others_nil_entries_witness:
  "(\<exists>chosenPod.
      fst (StickyPodChooser_ChoosePod (example_ext OperandFirst)
             (sticky_chooser (steady_client [running ''a'', running ''a'', running ''b'']) ''k'')
             example_world)
        = Inr (Some chosenPod, [Some (2, running ''b''), None])
      \<and> ptr_Name chosenPod = ''a'')
   \<and> (2::nat) \<le> length (filter (\<lambda>p. ptr_Name p = ''a'')
                     [(0, running ''a''), (1, running ''a''), (2, running ''b'')])
   \<and> (\<exists>chosenPod.
      fst (StickyPodChooser_ChoosePod (example_ext OperandFirst)
             (sticky_chooser (steady_client [running ''a'', pending ''a'', running ''b'']) ''k'')
             example_world)
        = Inr (Some chosenPod, [Some (2, running ''b'')])
      \<and> ptr_Name chosenPod = ''a'')
   \<and> distinct (map ptr_Name [(0, running ''a''), (2, running ''b'')])"
proof -
  let ?ext = "example_ext OperandFirst"
  let ?dup = "sticky_chooser (steady_client [running ''a'', running ''a'', running ''b'']) ''k''"
  let ?one = "sticky_chooser (steady_client [running ''a'', pending ''a'', running ''b'']) ''k''"
  let ?pods2 = "[(0, running ''a''), (1, running ''a''), (2, running ''b'')]"
  let ?pods1 = "[(0, running ''a''), (2, running ''b'')]"
  have l2: "ListRunningPods ?ext (PodClient ?dup) (Deployment ?dup) example_world
              = (Inr ?pods2, snd (ListRunningPods ?ext (PodClient ?dup) (Deployment ?dup)
                                    example_world))"
    by (rule result_collapse) (simp add: run_defs example_defs)
  have g2: "GetNode ?ext (map ptr_Name ?pods2) (Key ?dup) = Some ''a''"
    by (simp add: example_defs ptr_Name_def)
  have m2: "''a'' \<in> set (map ptr_Name ?pods2)"
    by (simp add: example_defs ptr_Name_def)
  have k2: "2 = length (filter (\<lambda>p. ptr_Name p = ''a'') ?pods2)"
    by (simp add: example_defs ptr_Name_def)
  have l1: "ListRunningPods ?ext (PodClient ?one) (Deployment ?one) example_world
              = (Inr ?pods1, snd (ListRunningPods ?ext (PodClient ?one) (Deployment ?one)
                                    example_world))"
    by (rule result_collapse) (simp add: run_defs example_defs)
  have g1: "GetNode ?ext (map ptr_Name ?pods1) (Key ?one) = Some ''a''"
    by (simp add: example_defs ptr_Name_def)
  have m1: "''a'' \<in> set (map ptr_Name ?pods1)"
    by (simp add: example_defs ptr_Name_def)
  have k1: "1 = length (filter (\<lambda>p. ptr_Name p = ''a'') ?pods1)"
    by (simp add: example_defs ptr_Name_def)
  have d1: "distinct (map ptr_Name ?pods1)"
    by (simp add: example_defs ptr_Name_def)
  from Sticky_others_nil_entries [OF l2 g2 m2 k2]
  have a: "\<exists>chosenPod.
      fst (StickyPodChooser_ChoosePod ?ext ?dup example_world)
        = Inr (Some chosenPod, [Some (2, running ''b''), None])
      \<and> ptr_Name chosenPod = ''a''"
    by (auto simp add: example_defs ptr_Name_def)
  from Sticky_others_nil_entries [OF l1 g1 m1 k1]
  have b: "\<exists>chosenPod.
      fst (StickyPodChooser_ChoosePod ?ext ?one example_world)
        = Inr (Some chosenPod, [Some (2, running ''b'')])
      \<and> ptr_Name chosenPod = ''a''"
    by (auto simp add: example_defs ptr_Name_def)
  from a b k2 d1 show ?thesis by simp
qed

subsection \<open>The ring lookup fails\<close>

text \<open>
  C5. When the ring lookup resolves no node for the key, \<^verbatim>\<open>StickyPodChooser.ChoosePod\<close>
  logs the error "no pod found for key" and returns what \<^verbatim>\<open>ChoosePod\<close> of a
  \<^verbatim>\<open>RandomPodChooser\<close> with the same client and deployment and a nil
  \<^verbatim>\<open>RandSource\<close> returns for that call: the same result and the same effects. The log
  entry is in the log at the end, and the call does not panic. No error is made for the
  failed lookup itself: whatever is returned is the result of the random chooser.
\<close>
theorem Sticky_ring_miss_falls_back:
  assumes "ListRunningPods ext (PodClient pc) (Deployment pc) w = (Inr pods, w1)"
      and "GetNode ext (map ptr_Name pods) (Key pc) = None"
      and "rpc = \<lparr>PodClient = PodClient pc, Deployment = Deployment pc, RandSource = None\<rparr>"
      and "w1' = w1\<lparr>trace := trace w1 @ [ErrorNoPodForKey (Key pc)]\<rparr>"
  shows "fst (StickyPodChooser_ChoosePod ext pc w) = fst (RandomPodChooser_ChoosePod ext rpc w1')
       \<and> snd (snd (StickyPodChooser_ChoosePod ext pc w))
           = snd (snd (RandomPodChooser_ChoosePod ext rpc w1'))
       \<and> ErrorNoPodForKey (Key pc)
           \<in> set (trace (snd (snd (StickyPodChooser_ChoosePod ext pc w))))
       \<and> (\<forall>p. fst (StickyPodChooser_ChoosePod ext pc w) \<noteq> Inl (Panic p))"
proof -
  from Sticky_fallback [OF assms(1,2)]
  have eq: "StickyPodChooser_ChoosePod ext pc w =
              (case RandomPodChooser_ChoosePod ext rpc w1' of (res, r, w2) \<Rightarrow> (res, pc, w2))"
    by (simp only: assms(3,4))
  then have r: "fst (StickyPodChooser_ChoosePod ext pc w)
                  = fst (RandomPodChooser_ChoosePod ext rpc w1')"
    and s: "snd (snd (StickyPodChooser_ChoosePod ext pc w))
              = snd (snd (RandomPodChooser_ChoosePod ext rpc w1'))"
    by (simp_all split: prod.splits)
  from Random_trace [of ext rpc w1'] obtain tr
    where "trace (snd (snd (RandomPodChooser_ChoosePod ext rpc w1'))) = trace w1' @ tr" ..
  with s have logged: "ErrorNoPodForKey (Key pc)
      \<in> set (trace (snd (snd (StickyPodChooser_ChoosePod ext pc w))))"
    by (simp add: assms(4))
  from ListRunningPods_Inr_D [OF assms(1)] obtain c d
    where "PodClient pc = Some c" "Deployment pc = Some d" by blast
  then have "PodClient rpc = Some c" "Deployment rpc = Some d" by (simp_all add: assms(3))
  then have "fst (RandomPodChooser_ChoosePod ext rpc w1') \<noteq> Inl (Panic p)" for p
    by (rule Random_no_panic)
  with r s logged show ?thesis by simp
qed

theorem Sticky_ring_miss_falls_back_witness:
  "GetNode (example_ext OperandFirst) (map ptr_Name [])
       (Key (sticky_chooser (scripted_client [Inr [pending ''w-0''], Inr [running ''w-1'']])
               ''session-42'')) = None
   \<and> fst (StickyPodChooser_ChoosePod (example_ext OperandFirst)
        (sticky_chooser (scripted_client [Inr [pending ''w-0''], Inr [running ''w-1'']])
           ''session-42'') example_world)
     = fst (RandomPodChooser_ChoosePod (example_ext OperandFirst)
        (random_chooser (scripted_client [Inr [pending ''w-0''], Inr [running ''w-1'']]) None)
        (example_world\<lparr>list_calls := 1, trace := [ErrorNoPodForKey ''session-42'']\<rparr>))
   \<and> fst (StickyPodChooser_ChoosePod (example_ext OperandFirst)
        (sticky_chooser (scripted_client [Inr [pending ''w-0''], Inr [running ''w-1'']])
           ''session-42'') example_world)
     = Inr (Some (0, running ''w-1''), [])
   \<and> ErrorNoPodForKey ''session-42''
       \<in> set (trace (snd (snd (StickyPodChooser_ChoosePod (example_ext OperandFirst)
            (sticky_chooser (scripted_client [Inr [pending ''w-0''], Inr [running ''w-1'']])
               ''session-42'') example_world))))"
proof -
  let ?ext = "example_ext OperandFirst"
  let ?client = "scripted_client [Inr [pending ''w-0''], Inr [running ''w-1'']]"
  let ?pc = "sticky_chooser ?client ''session-42''"
  let ?w1 = "example_world\<lparr>list_calls := 1\<rparr>"
  have l: "ListRunningPods ?ext (PodClient ?pc) (Deployment ?pc) example_world = (Inr [], ?w1)"
    by (simp add: run_defs example_defs)
  have g: "GetNode ?ext (map ptr_Name []) (Key ?pc) = None"
    by (simp add: example_defs)
  have rpc: "random_chooser ?client None
               = \<lparr>PodClient = PodClient ?pc, Deployment = Deployment ?pc, RandSource = None\<rparr>"
    by (simp add: random_chooser_def sticky_chooser_def)
  have w: "example_world\<lparr>list_calls := 1, trace := [ErrorNoPodForKey ''session-42'']\<rparr>
             = ?w1\<lparr>trace := trace ?w1 @ [ErrorNoPodForKey (Key ?pc)]\<rparr>"
    by (simp add: example_world_def sticky_chooser_def)
  have run: "fst (RandomPodChooser_ChoosePod ?ext (random_chooser ?client None)
               (example_world\<lparr>list_calls := 1, trace := [ErrorNoPodForKey ''session-42'']\<rparr>))
             = Inr (Some (0, running ''w-1''), [])"
    by (simp add: run_defs example_defs)
  have key: "Key ?pc = ''session-42''"
    by (simp add: sticky_chooser_def)
  note t = Sticky_ring_miss_falls_back [OF l g rpc w]
  from t have t1: "fst (StickyPodChooser_ChoosePod ?ext ?pc example_world)
      = fst (RandomPodChooser_ChoosePod ?ext (random_chooser ?client None)
          (example_world\<lparr>list_calls := 1, trace := [ErrorNoPodForKey ''session-42'']\<rparr>))"
    by (rule conjunct1)
  from t have t3: "ErrorNoPodForKey (Key ?pc)
      \<in> set (trace (snd (snd (StickyPodChooser_ChoosePod ?ext ?pc example_world))))"
    by blast
  from t1 run have t2: "fst (StickyPodChooser_ChoosePod ?ext ?pc example_world)
      = Inr (Some (0, running ''w-1''), [])"
    by (rule trans)
  from g t1 t2 t3 [unfolded key] show ?thesis by blast
qed

subsection \<open>StickyPodChooser on an empty discovery\<close>

text \<open>
  C9. When the first discovery of \<^verbatim>\<open>StickyPodChooser.ChoosePod\<close> returns no pod and the
  lookup in the ring without nodes fails, the method makes no error of its own. It returns
  what a new \<^verbatim>\<open>RandomPodChooser\<close> with a nil \<^verbatim>\<open>RandSource\<close> returns, and that
  chooser lists the pods again: two list calls have been served at the end. The outcome
  follows the second discovery alone: its error if it fails, the "no builder pods are running"
  error if it is empty, and otherwise a pod chosen from it together with the others of it,
  whatever the first discovery was.
\<close>
theorem Sticky_empty_discovery_delegates:
  assumes "ListRunningPods ext (PodClient pc) (Deployment pc) w = (Inr [], w1)"
      and "GetNode ext [] (Key pc) = None"
      and "rpc = \<lparr>PodClient = PodClient pc, Deployment = Deployment pc, RandSource = None\<rparr>"
      and "ListRunningPods ext (PodClient pc) (Deployment pc)
             (w1\<lparr>trace := trace w1 @ [ErrorNoPodForKey (Key pc)]\<rparr>) = (second, w2)"
  shows "fst (StickyPodChooser_ChoosePod ext pc w)
           = fst (RandomPodChooser_ChoosePod ext rpc
                    (w1\<lparr>trace := trace w1 @ [ErrorNoPodForKey (Key pc)]\<rparr>))
       \<and> list_calls (snd (snd (StickyPodChooser_ChoosePod ext pc w))) = list_calls w + 2
       \<and> (case second of
             Inl err \<Rightarrow> fst (StickyPodChooser_ChoosePod ext pc w) = Inl err
           | Inr pods \<Rightarrow>
               if pods = []
               then fst (StickyPodChooser_ChoosePod ext pc w) = Inl NoBuilderPodsRunning
               else \<exists>chosen others.
                      fst (StickyPodChooser_ChoosePod ext pc w) = Inr (Some chosen, others)
                      \<and> chosen \<in> set pods \<and> length others = length pods - 1
                      \<and> set others \<subseteq> Some ` set pods)"
proof -
  let ?w = "w1\<lparr>trace := trace w1 @ [ErrorNoPodForKey (Key pc)]\<rparr>"
  from assms(1,2) have g: "GetNode ext (map ptr_Name []) (Key pc) = None" by simp
  from Sticky_fallback [OF assms(1) g]
  have eq: "StickyPodChooser_ChoosePod ext pc w =
              (case RandomPodChooser_ChoosePod ext rpc ?w of (res, r, w') \<Rightarrow> (res, pc, w'))"
    by (simp only: assms(3))
  then have r: "fst (StickyPodChooser_ChoosePod ext pc w)
                  = fst (RandomPodChooser_ChoosePod ext rpc ?w)"
    and s: "snd (snd (StickyPodChooser_ChoosePod ext pc w))
              = snd (snd (RandomPodChooser_ChoosePod ext rpc ?w))"
    by (simp_all split: prod.splits)
  from assms(4) have l: "ListRunningPods ext (PodClient rpc) (Deployment rpc) ?w = (second, w2)"
    by (simp add: assms(3))
  from ListRunningPods_Inr_D [OF assms(1)] obtain c d
    where cd: "PodClient pc = Some c" "Deployment pc = Some d"
      and sel: "\<exists>sel. LabelSelectorAsSelector ext (ObjectMeta_Name d) = Inr sel" by blast
  have c1: "list_calls ?w = list_calls w + 1"
    using ListRunningPods_calls [OF assms(1)] by simp
  have c2: "list_calls w2 = list_calls ?w + 1"
    using assms(4) sel unfolding cd
    by (auto simp add: ListRunningPods_def running_loop_eq split: sum.splits)
  show ?thesis
  proof (cases second)
    case (Inl err)
    with l have "RandomPodChooser_ChoosePod ext rpc ?w = (Inl err, rpc, w2)"
      by (simp add: Random_failed)
    with r s c1 c2 Inl show ?thesis by simp
  next
    case (Inr pods)
    show ?thesis
    proof (cases "pods = []")
      case True
      with l Inr have "RandomPodChooser_ChoosePod ext rpc ?w = (Inl NoBuilderPodsRunning, rpc, w2)"
        by (simp add: Random_empty)
      with r s c1 c2 Inr True show ?thesis by simp
    next
      case False
      from l Inr have l': "ListRunningPods ext (PodClient rpc) (Deployment rpc) ?w = (Inr pods, w2)"
        by simp
      obtain v w3 where n: "next_Int63 ext (RandSource rpc) w2 = (v, w3)"
        by (cases "next_Int63 ext (RandSource rpc) w2")
      define i where "i = nat (drawn_index v (length pods))"
      note found = Random_found [OF l' False n i_def]
      from found(2) have i: "i < length pods" .
      have chosen: "(case order ext of OperandFirst \<Rightarrow> pods ! i
                     | CallFirst \<Rightarrow> if Suc i < length pods then pods ! Suc i else pods ! i)
                    \<in> set pods"
        using i by (simp split: eval_order.split)
      have others: "length (map Some (take i pods @ drop (Suc i) pods)) = length pods - 1"
        using i by simp
      have sub: "set (map Some (take i pods @ drop (Suc i) pods)) \<subseteq> Some ` set pods"
        by (auto dest: in_set_takeD in_set_dropD)
      from found(1) next_Int63_calls [OF n] r s c1 c2 Inr False chosen others sub
      show ?thesis by simp
    qed
  qed
qed

theorem Sticky_empty_discovery_delegates_witness:
  "fst (ListRunningPods (example_ext OperandFirst)
          (Some (scripted_client [Inr [], Inr [running ''w-2'', running ''w-1'']]))
          (Some buildkit) example_world) = Inr []
   \<and> GetNode (example_ext OperandFirst) [] ''session-42'' = None
   \<and> list_calls (snd (snd (StickyPodChooser_ChoosePod (example_ext OperandFirst)
        (sticky_chooser (scripted_client [Inr [], Inr [running ''w-2'', running ''w-1'']])
           ''session-42'') example_world))) = 2
   \<and> (\<exists>chosen others.
        fst (StickyPodChooser_ChoosePod (example_ext OperandFirst)
          (sticky_chooser (scripted_client [Inr [], Inr [running ''w-2'', running ''w-1'']])
             ''session-42'') example_world) = Inr (Some chosen, others)
        \<and> chosen \<in> {(1, running ''w-1''), (0, running ''w-2'')}
        \<and> length others = 1)"
proof -
  let ?ext = "example_ext OperandFirst"
  let ?client = "scripted_client [Inr [], Inr [running ''w-2'', running ''w-1'']]"
  let ?pc = "sticky_chooser ?client ''session-42''"
  let ?w1 = "example_world\<lparr>list_calls := 1\<rparr>"
  let ?w1' = "?w1\<lparr>trace := trace ?w1 @ [ErrorNoPodForKey (Key ?pc)]\<rparr>"
  have l: "ListRunningPods ?ext (PodClient ?pc) (Deployment ?pc) example_world = (Inr [], ?w1)"
    by (simp add: run_defs example_defs)
  have g: "GetNode ?ext [] (Key ?pc) = None"
    by (simp add: example_defs)
  have l2: "ListRunningPods ?ext (PodClient ?pc) (Deployment ?pc) ?w1'
              = (Inr [(1, running ''w-1''), (0, running ''w-2'')],
                 snd (ListRunningPods ?ext (PodClient ?pc) (Deployment ?pc) ?w1'))"
    by (rule result_collapse) (simp add: run_defs example_defs)
  have key: "Key ?pc = ''session-42''"
    by (simp add: sticky_chooser_def)
  have cd: "PodClient ?pc = Some ?client" "Deployment ?pc = Some buildkit"
    by (simp_all add: sticky_chooser_def)
  have c0: "list_calls example_world + 2 = 2"
    by (simp add: example_world_def)
  note t = Sticky_empty_discovery_delegates [OF l g refl l2]
  from t have t2: "list_calls (snd (snd (StickyPodChooser_ChoosePod ?ext ?pc example_world))) = 2"
    unfolding c0 by blast
  from t [THEN conjunct2, THEN conjunct2] have t3: "\<exists>chosen others.
        fst (StickyPodChooser_ChoosePod ?ext ?pc example_world) = Inr (Some chosen, others)
        \<and> chosen \<in> {(1, running ''w-1''), (0, running ''w-2'')}
        \<and> length others = 1"
    by simp blast
  from l have l': "fst (ListRunningPods ?ext (Some ?client) (Some buildkit) example_world) = Inr []"
    unfolding cd by simp
  from l' g [unfolded key] t2 t3 show ?thesis by blast
qed

subsection \<open>The same key and the same membership\<close>


text \<open>
  What the ring gives when it is asked. Take two calls with the same \<^verbatim>\<open>Key\<close> (on any
  two choosers, in any two states of the world) whose discoveries return pods of pairwise
  distinct names and of the same set of names. When the ring resolves the key to one of these
  names, both calls succeed and the two chosen pods bear the same name, the one the ring
  resolved: discovery sorts by name, so the ring is built from the same node list in both
  calls. When the set is empty and the second discovery of each call is empty as well, both
  calls return the "no builder pods are running" error.
\<close>

lemma Sticky_same_membership_same_chosen:
  assumes "Key pc1 = Key pc2"
      and "ListRunningPods ext (PodClient pc1) (Deployment pc1) w1 = (Inr pods1, w1')"
      and "ListRunningPods ext (PodClient pc2) (Deployment pc2) w2 = (Inr pods2, w2')"
      and "set (map ptr_Name pods1) = set (map ptr_Name pods2)"
      and "distinct (map ptr_Name pods1)" and "distinct (map ptr_Name pods2)"
  shows "(GetNode ext (map ptr_Name pods1) (Key pc1) = Some c \<longrightarrow>
          c \<in> set (map ptr_Name pods1) \<longrightarrow>
            (\<exists>p1 others1 p2 others2.
               fst (StickyPodChooser_ChoosePod ext pc1 w1) = Inr (Some p1, others1)
               \<and> fst (StickyPodChooser_ChoosePod ext pc2 w2) = Inr (Some p2, others2)
               \<and> ptr_Name p1 = ptr_Name p2 \<and> ptr_Name p1 = c))
       \<and> (pods1 = [] \<longrightarrow> GetNode ext [] (Key pc1) = None \<longrightarrow>
          fst (ListRunningPods ext (PodClient pc1) (Deployment pc1)
                 (w1'\<lparr>trace := trace w1' @ [ErrorNoPodForKey (Key pc1)]\<rparr>)) = Inr [] \<longrightarrow>
          fst (ListRunningPods ext (PodClient pc2) (Deployment pc2)
                 (w2'\<lparr>trace := trace w2' @ [ErrorNoPodForKey (Key pc2)]\<rparr>)) = Inr [] \<longrightarrow>
            fst (StickyPodChooser_ChoosePod ext pc1 w1) = Inl NoBuilderPodsRunning
            \<and> fst (StickyPodChooser_ChoosePod ext pc2 w2) = Inl NoBuilderPodsRunning)"
proof (intro conjI impI)
  assume g1: "GetNode ext (map ptr_Name pods1) (Key pc1) = Some c"
     and m1: "c \<in> set (map ptr_Name pods1)"
  have names: "map ptr_Name pods1 = map ptr_Name pods2"
    using discovered_sorted [OF assms(2)] assms(5) discovered_sorted [OF assms(3)] assms(6)
      assms(4)
    by (rule sorted_distinct_set_unique)
  have g2: "GetNode ext (map ptr_Name pods2) (Key pc2) = Some c"
    using g1 by (simp only: names assms(1))
  have m2: "c \<in> set (map ptr_Name pods2)"
    using m1 by (simp only: names)
  let ?p1 = "last (filter (\<lambda>p. ptr_Name p = c) pods1)"
  let ?p2 = "last (filter (\<lambda>p. ptr_Name p = c) pods2)"
  have "filter (\<lambda>p. ptr_Name p = c) pods1 \<noteq> []"
    using m1 by (auto simp add: filter_empty_conv)
  then have "?p1 \<in> set (filter (\<lambda>p. ptr_Name p = c) pods1)" by (rule last_in_set)
  then have n1: "ptr_Name ?p1 = c" by simp
  have "filter (\<lambda>p. ptr_Name p = c) pods2 \<noteq> []"
    using m2 by (auto simp add: filter_empty_conv)
  then have "?p2 \<in> set (filter (\<lambda>p. ptr_Name p = c) pods2)" by (rule last_in_set)
  then have n2: "ptr_Name ?p2 = c" by simp
  from Sticky_found [OF assms(2) g1 m1] Sticky_found [OF assms(3) g2 m2] n1 n2
  show "\<exists>p1 others1 p2 others2.
          fst (StickyPodChooser_ChoosePod ext pc1 w1) = Inr (Some p1, others1)
          \<and> fst (StickyPodChooser_ChoosePod ext pc2 w2) = Inr (Some p2, others2)
          \<and> ptr_Name p1 = ptr_Name p2 \<and> ptr_Name p1 = c"
    by simp
next
  assume e1: "pods1 = []"
     and g: "GetNode ext [] (Key pc1) = None"
     and s1: "fst (ListRunningPods ext (PodClient pc1) (Deployment pc1)
                (w1'\<lparr>trace := trace w1' @ [ErrorNoPodForKey (Key pc1)]\<rparr>)) = Inr []"
     and s2: "fst (ListRunningPods ext (PodClient pc2) (Deployment pc2)
                (w2'\<lparr>trace := trace w2' @ [ErrorNoPodForKey (Key pc2)]\<rparr>)) = Inr []"
  from e1 assms(4) have e2: "pods2 = []" by simp
  have fall: "fst (StickyPodChooser_ChoosePod ext pc w) = Inl NoBuilderPodsRunning"
    if l: "ListRunningPods ext (PodClient pc) (Deployment pc) w = (Inr [], w')"
      and k: "GetNode ext [] (Key pc) = None"
      and s: "fst (ListRunningPods ext (PodClient pc) (Deployment pc)
                (w'\<lparr>trace := trace w' @ [ErrorNoPodForKey (Key pc)]\<rparr>)) = Inr []"
    for pc w w'
  proof -
    let ?rpc = "\<lparr>PodClient = PodClient pc, Deployment = Deployment pc, RandSource = None\<rparr>"
    let ?w = "w'\<lparr>trace := trace w' @ [ErrorNoPodForKey (Key pc)]\<rparr>"
    from s have "ListRunningPods ext (PodClient ?rpc) (Deployment ?rpc) ?w
                   = (Inr [], snd (ListRunningPods ext (PodClient pc) (Deployment pc) ?w))"
      by (simp add: result_collapse)
    then have "fst (RandomPodChooser_ChoosePod ext ?rpc ?w) = Inl NoBuilderPodsRunning"
      by (simp add: Random_empty)
    moreover from k have "GetNode ext (map ptr_Name []) (Key pc) = None" by simp
    note Sticky_fallback [OF l this]
    ultimately show ?thesis by (simp split: prod.splits)
  qed
  from assms(2) e1 have l1: "ListRunningPods ext (PodClient pc1) (Deployment pc1) w1 = (Inr [], w1')"
    by simp
  from assms(3) e2 have l2: "ListRunningPods ext (PodClient pc2) (Deployment pc2) w2 = (Inr [], w2')"
    by simp
  from g assms(1) have g': "GetNode ext [] (Key pc2) = None" by simp
  show "fst (StickyPodChooser_ChoosePod ext pc1 w1) = Inl NoBuilderPodsRunning"
    by (rule fall [OF l1 g s1])
  show "fst (StickyPodChooser_ChoosePod ext pc2 w2) = Inl NoBuilderPodsRunning"
    by (rule fall [OF l2 g' s2])
qed

subsection \<open>The chosen pod and the others\<close>

text \<open>
  C1 on the code. Discovery returns the pods w-1 and w-2, and the source gives the value 0,
  so the index drawn is 0. When \<^verbatim>\<open>append\<close> runs before the operand \<^verbatim>\<open>pods[n]\<close>
  of the same return statement is read, it has moved w-2 to index 0 of the array by then:
  \<^verbatim>\<open>RandomPodChooser.ChoosePod\<close> returns w-2 as chosen and \<^verbatim>\<open>[w-2]\<close> as the others.
  The chosen pod is among the others, w-1 is in neither, and the pair is not a selection in
  the specification's sense. When the operand is read first, the same call returns w-1 and
  \<^verbatim>\<open>[w-2]\<close>.
\<close>

theorem Random_chosen_among_others:
  "fst (ListRunningPods (example_ext CallFirst)
          (Some (steady_client [running ''w-1'', running ''w-2''])) (Some buildkit)
          example_world)
     = Inr [(0, running ''w-1''), (1, running ''w-2'')]
   \<and> drawn_index 0 2 = 0
   \<and> fst (RandomPodChooser_ChoosePod (example_ext CallFirst)
        (random_chooser (steady_client [running ''w-1'', running ''w-2'']) (Some 0))
        example_world)
     = Inr (Some (1, running ''w-2''), [Some (1, running ''w-2'')])
   \<and> Some (1, running ''w-2'') \<in> set [Some (1, running ''w-2'')]
   \<and> \<not> selection_of [(0, running ''w-1''), (1, running ''w-2'')]
          (Some (1, running ''w-2'')) [Some (1, running ''w-2'')]
   \<and> fst (RandomPodChooser_ChoosePod (example_ext OperandFirst)
        (random_chooser (steady_client [running ''w-1'', running ''w-2'']) (Some 0))
        example_world)
     = Inr (Some (0, running ''w-1''), [Some (1, running ''w-2'')])"
  by (simp add: run_defs example_defs selection_of_def)

text \<open>
  What holds of the two choosers on a non-empty discovery. The slice \<^verbatim>\<open>others\<close> of
  \<^verbatim>\<open>RandomPodChooser.ChoosePod\<close> is the discovered sequence with one element removed,
  order otherwise kept, in either order of evaluation; when the operand \<^verbatim>\<open>pods[n]\<close> is
  read before \<^verbatim>\<open>append\<close> runs, \<^verbatim>\<open>chosen\<close> is that element and the pair is a
  selection. \<^verbatim>\<open>StickyPodChooser.ChoosePod\<close> returns a selection when the discovered pods
  have pairwise distinct names and the ring resolves the key to one of these names.
\<close>

lemma ChoosePod_selection:
  assumes "ListRunningPods ext client depl w = (Inr pods, w1)"
      and "pods \<noteq> []"
  shows "(PodClient rpc = client \<longrightarrow> Deployment rpc = depl \<longrightarrow>
            (\<exists>chosen others i.
               fst (RandomPodChooser_ChoosePod ext rpc w) = Inr (chosen, others)
               \<and> i < length pods
               \<and> others = map Some (take i pods @ drop (Suc i) pods)
               \<and> (order ext = OperandFirst \<longrightarrow> selection_of pods chosen others)))
       \<and> (PodClient spc = client \<longrightarrow> Deployment spc = depl \<longrightarrow>
            distinct (map ptr_Name pods) \<longrightarrow>
            GetNode ext (map ptr_Name pods) (Key spc) = Some c \<longrightarrow>
            c \<in> set (map ptr_Name pods) \<longrightarrow>
            (\<exists>chosen others.
               fst (StickyPodChooser_ChoosePod ext spc w) = Inr (chosen, others)
               \<and> selection_of pods chosen others))"
proof (intro conjI impI)
  assume "PodClient rpc = client" and "Deployment rpc = depl"
  with assms(1) have l: "ListRunningPods ext (PodClient rpc) (Deployment rpc) w = (Inr pods, w1)"
    by simp
  obtain v w2 where n: "next_Int63 ext (RandSource rpc) w1 = (v, w2)"
    by (cases "next_Int63 ext (RandSource rpc) w1")
  define i where "i = nat (drawn_index v (length pods))"
  note found = Random_found [OF l assms(2) n i_def]
  from found(2) have i: "i < length pods" .
  have "selection_of pods (Some (pods ! i)) (map Some (take i pods @ drop (Suc i) pods))"
    using discovered_distinct [OF assms(1)] i by (rule selection_of_nth)
  with found(1) i
  show "\<exists>chosen others i.
          fst (RandomPodChooser_ChoosePod ext rpc w) = Inr (chosen, others)
          \<and> i < length pods
          \<and> others = map Some (take i pods @ drop (Suc i) pods)
          \<and> (order ext = OperandFirst \<longrightarrow> selection_of pods chosen others)"
    by auto
next
  assume "PodClient spc = client" and "Deployment spc = depl"
     and d: "distinct (map ptr_Name pods)"
     and g: "GetNode ext (map ptr_Name pods) (Key spc) = Some c"
     and m: "c \<in> set (map ptr_Name pods)"
  with assms(1) have l: "ListRunningPods ext (PodClient spc) (Deployment spc) w = (Inr pods, w1)"
    by simp
  from m obtain i where i: "i < length pods" and ci: "ptr_Name (pods ! i) = c"
    by (auto simp add: in_set_conv_nth)
  note u = filter_unique_key [OF d i ci]
  have sel: "selection_of pods (Some (pods ! i)) (map Some (take i pods @ drop (Suc i) pods))"
    using discovered_distinct [OF assms(1)] i by (rule selection_of_nth)
  from Sticky_found [OF l g m] sel
  show "\<exists>chosen others.
          fst (StickyPodChooser_ChoosePod ext spc w) = Inr (chosen, others)
          \<and> selection_of pods chosen others"
    unfolding u by simp
qed

subsection \<open>The index the random chooser draws\<close>

text \<open>
  C6, as the code has it. For a non-empty discovery of \<open>N\<close> pods and any source (the
  chooser's, or the one seeded from the clock when that is nil),
  \<^verbatim>\<open>RandomPodChooser.ChoosePod\<close> takes one value from the source and draws the index
  \<^verbatim>\<open>n = rnd.Int() % N\<close>, which lies in \<open>[0, N)\<close>; the call succeeds, and the replica
  at index \<open>n\<close> of the discovered sequence is the one left out of \<open>others\<close>. The index is
  not uniformly distributed over the source's range of values in general: of the \<open>2 ^ 63\<close>
  values, \<open>2 ^ 63 div N + 1\<close> lead to an index below \<open>2 ^ 63 mod N\<close> and \<open>2 ^ 63 div N\<close>
  to any other index, so that all indices are equally likely exactly when \<open>N\<close> divides
  \<open>2 ^ 63\<close>.
\<close>

theorem Random_draws_index:
  assumes "ListRunningPods ext (PodClient pc) (Deployment pc) w = (Inr pods, w1)"
      and "pods \<noteq> []"
      and "next_Int63 ext (RandSource pc) w1 = (v, w2)"
      and "n = drawn_index v (length pods)"
  shows "0 \<le> n \<and> n < int (length pods) \<and> n = rand_Int v mod int (length pods)
       \<and> (\<exists>chosen.
            fst (RandomPodChooser_ChoosePod ext pc w)
              = Inr (Some chosen, map Some (take (nat n) pods @ drop (Suc (nat n)) pods)))
       \<and> (\<forall>i < length pods.
            card (draws_for (length pods) i)
              = 2 ^ 63 div length pods + (if i < 2 ^ 63 mod length pods then 1 else 0))
       \<and> ((\<forall>i < length pods. \<forall>j < length pods.
               card (draws_for (length pods) i) = card (draws_for (length pods) j))
            \<longleftrightarrow> length pods dvd 2 ^ 63)"
proof -
  let ?N = "length pods"
  let ?r = "(2::nat) ^ 63 mod ?N"
  from assms(2) have len: "0 < ?N" by simp
  have range: "0 \<le> n \<and> n < int ?N"
    unfolding assms(4) by (rule drawn_index_range [OF len])
  have md: "n = rand_Int v mod int ?N"
    unfolding assms(4) by (rule drawn_index_eq [OF len])
  from Random_found(1) [OF assms(1,2,3) refl]
  have run: "\<exists>chosen.
       fst (RandomPodChooser_ChoosePod ext pc w)
         = Inr (Some chosen, map Some (take (nat n) pods @ drop (Suc (nat n)) pods))"
    unfolding assms(4) by simp
  have count: "card (draws_for ?N i) = 2 ^ 63 div ?N + (if i < ?r then 1 else 0)"
    if "i < ?N" for i
    using that by (rule card_draws_for)
  have even: "card (draws_for ?N i) = card (draws_for ?N j)"
    if "?N dvd 2 ^ 63" and "i < ?N" and "j < ?N" for i j
  proof -
    from that(1) have "?r = 0" by (rule dvd_imp_mod_0)
    then show ?thesis
      by (simp only: count [OF that(2)] count [OF that(3)]) simp
  qed
  have dvd: "?N dvd 2 ^ 63"
    if eq: "\<forall>i < ?N. \<forall>j < ?N. card (draws_for ?N i) = card (draws_for ?N j)"
  proof (rule ccontr)
    assume "\<not> ?N dvd 2 ^ 63"
    then have r: "0 < ?r" by (simp add: dvd_eq_mod_eq_0)
    have rN: "?r < ?N" using len by (rule mod_less_divisor)
    from r rN have last: "?N - 1 < ?N" and notlast: "\<not> ?N - 1 < ?r" by linarith+
    from eq len last have "card (draws_for ?N 0) = card (draws_for ?N (?N - 1))" by blast
    then have "(if 0 < ?r then 1 else 0) = (if ?N - 1 < ?r then 1 else (0::nat))"
      by (simp only: count [OF len] count [OF last] add_left_cancel)
    with r notlast show False by simp
  qed
  from range md run count even dvd show ?thesis by blast
qed

theorem Random_draws_index_witness:
  "fst (ListRunningPods (example_ext CallFirst)
          (Some (steady_client [running ''w-1'', running ''w-2'', running ''w-3'']))
          (Some buildkit) example_world)
     = Inr [(0, running ''w-1''), (1, running ''w-2''), (2, running ''w-3'')]
   \<and> drawn_index 1 3 = 1
   \<and> (\<exists>chosen. fst (RandomPodChooser_ChoosePod (example_ext CallFirst)
        (random_chooser (steady_client [running ''w-1'', running ''w-2'', running ''w-3''])
           (Some 1)) example_world)
     = Inr (Some chosen, [Some (0, running ''w-1''), Some (2, running ''w-3'')]))
   \<and> card (draws_for 3 0) = 3074457345618258603
   \<and> card (draws_for 3 2) = 3074457345618258602
   \<and> (2::nat) dvd 2 ^ 63
   \<and> (\<exists>chosen. fst (RandomPodChooser_ChoosePod (example_ext OperandFirst)
        (random_chooser (steady_client [running ''w-1'', running ''w-2'']) None) example_world)
     = Inr (Some chosen, [Some (0, running ''w-1'')]))
   \<and> card (draws_for 2 0) = card (draws_for 2 1)"
proof -
  let ?ext3 = "example_ext CallFirst"
  let ?ext2 = "example_ext OperandFirst"
  let ?c3 = "steady_client [running ''w-1'', running ''w-2'', running ''w-3'']"
  let ?c2 = "steady_client [running ''w-1'', running ''w-2'']"
  let ?pc3 = "random_chooser ?c3 (Some 1)"
  let ?pc2 = "random_chooser ?c2 None"
  let ?pods3 = "[(0, running ''w-1''), (1, running ''w-2''), (2, running ''w-3'')]"
  let ?pods2 = "[(0, running ''w-1''), (1, running ''w-2'')]"
  let ?w3 = "snd (ListRunningPods ?ext3 (Some ?c3) (Some buildkit) example_world)"
  let ?w2 = "snd (ListRunningPods ?ext2 (Some ?c2) (Some buildkit) example_world)"
  have cd: "PodClient ?pc3 = Some ?c3" "Deployment ?pc3 = Some buildkit"
           "PodClient ?pc2 = Some ?c2" "Deployment ?pc2 = Some buildkit"
    by (simp_all add: random_chooser_def)
  have f3: "fst (ListRunningPods ?ext3 (Some ?c3) (Some buildkit) example_world) = Inr ?pods3"
    by (simp add: run_defs example_defs)
  then have l3: "ListRunningPods ?ext3 (PodClient ?pc3) (Deployment ?pc3) example_world
                   = (Inr ?pods3, ?w3)"
    unfolding cd by (rule result_collapse)
  have f2: "fst (ListRunningPods ?ext2 (Some ?c2) (Some buildkit) example_world) = Inr ?pods2"
    by (simp add: run_defs example_defs)
  then have l2: "ListRunningPods ?ext2 (PodClient ?pc2) (Deployment ?pc2) example_world
                   = (Inr ?pods2, ?w2)"
    unfolding cd by (rule result_collapse)
  have d3: "next_Int63 ?ext3 (RandSource ?pc3) ?w3
              = (1, snd (next_Int63 ?ext3 (RandSource ?pc3) ?w3))"
    by (rule result_collapse) (simp add: run_defs example_defs)
  have d2: "next_Int63 ?ext2 (RandSource ?pc2) ?w2
              = (word_of_int 1600000001, snd (next_Int63 ?ext2 (RandSource ?pc2) ?w2))"
    by (rule result_collapse) (simp add: run_defs example_defs)
  have n3: "drawn_index 1 3 = 1"
    by (simp add: run_defs)
  have n3': "1 = drawn_index 1 (length ?pods3)"
    by (simp add: run_defs)
  have n2: "1 = drawn_index (word_of_int 1600000001) (length ?pods2)"
    by (simp add: run_defs)
  have dv: "(2::nat) dvd 2 ^ 63" by simp
  have len3: "length ?pods3 = 3" and len2: "length ?pods2 = 2" by simp_all
  have ne3: "?pods3 \<noteq> []" and ne2: "?pods2 \<noteq> []" by simp_all
  note t3 = Random_draws_index [OF l3 ne3 d3 n3', unfolded len3]
  note t2 = Random_draws_index [OF l2 ne2 d2 n2, unfolded len2]
  note run3 = t3 [THEN conjunct2, THEN conjunct2, THEN conjunct2, THEN conjunct1]
  note count3 = t3 [THEN conjunct2, THEN conjunct2, THEN conjunct2, THEN conjunct2,
                    THEN conjunct1, rule_format]
  note run2 = t2 [THEN conjunct2, THEN conjunct2, THEN conjunct2, THEN conjunct1]
  note iff2 = t2 [THEN conjunct2, THEN conjunct2, THEN conjunct2, THEN conjunct2,
                  THEN conjunct2]
  from run3 have r3: "\<exists>chosen. fst (RandomPodChooser_ChoosePod ?ext3 ?pc3 example_world)
      = Inr (Some chosen, [Some (0, running ''w-1''), Some (2, running ''w-3'')])"
    by simp
  from count3 [of 0] have k30: "card (draws_for 3 0) = 3074457345618258603"
    by simp
  from count3 [of 2] have k32: "card (draws_for 3 2) = 3074457345618258602"
    by simp
  from run2 have r2: "\<exists>chosen. fst (RandomPodChooser_ChoosePod ?ext2 ?pc2 example_world)
      = Inr (Some chosen, [Some (0, running ''w-1'')])"
    by simp
  from iff2 dv have "\<forall>i<2. \<forall>j<2. card (draws_for 2 i) = card (draws_for 2 j)"
    by (rule iffD2)
  then have k2: "card (draws_for 2 0) = card (draws_for 2 1)"
    by simp
  from f3 n3 r3 k30 k32 dv r2 k2 show ?thesis by blast
qed

text \<open>
  C6 as it is written, each index equally likely over the source's range, fails for three
  pods: of the \<open>2 ^ 63\<close> values, one more leads to index 0 than to index 2.
\<close>

theorem drawn_index_bias_counterexample:
  "card (draws_for 3 0) = 3074457345618258603 \<and> card (draws_for 3 2) = 3074457345618258602
   \<and> card (draws_for 3 0) \<noteq> card (draws_for 3 2)"
  by (simp add: card_draws_for)

subsection \<open>No running pod\<close>

text \<open>
  C4 on the code. The first list call finds no running pod (one pod, pending).
  \<^verbatim>\<open>RandomPodChooser.ChoosePod\<close> returns the "no builder pods are running" error.
  \<^verbatim>\<open>StickyPodChooser.ChoosePod\<close> does not check for the empty slice: the ring has no
  node, the lookup fails, and the branch marked NOTREACHED lists the pods a second time. When
  the pod is running by then, the call returns it as chosen, with no error; when the second
  list call fails, the call returns that failure; the "no builder pods are running" error is
  returned only when the second discovery is empty too.
\<close>
theorem Sticky_empty_then_running:
  "fst (ListRunningPods (example_ext OperandFirst)
          (Some (scripted_client [Inr [pending ''w-1''], Inr [running ''w-1'']]))
          (Some buildkit) example_world) = Inr []
   \<and> fst (RandomPodChooser_ChoosePod (example_ext OperandFirst)
        (random_chooser (scripted_client [Inr [pending ''w-1''], Inr [running ''w-1'']]) None)
        example_world) = Inl NoBuilderPodsRunning
   \<and> fst (StickyPodChooser_ChoosePod (example_ext OperandFirst)
        (sticky_chooser (scripted_client [Inr [pending ''w-1''], Inr [running ''w-1'']])
           ''session-42'') example_world)
      = Inr (Some (0, running ''w-1''), [])
   \<and> fst (StickyPodChooser_ChoosePod (example_ext OperandFirst)
        (sticky_chooser (scripted_client [Inr [pending ''w-1''], Inl ''connection reset''])
           ''session-42'') example_world)
      = Inl (ApiError ''connection reset'')
   \<and> fst (StickyPodChooser_ChoosePod (example_ext OperandFirst)
        (sticky_chooser (steady_client [pending ''w-1'']) ''session-42'') example_world)
      = Inl NoBuilderPodsRunning"
  by (simp add: run_defs example_defs)

end
